theory Spec2Isabelle
  imports Main "HOL-Library.Word"
begin

unbundle bit_operations_syntax

section \<open>Constants of the tool\<close>

text \<open>The four constants of \<^verbatim>\<open>main.go\<close> (lines 16-21).\<close>

definition XATTR_KEY :: string where
  "XATTR_KEY = ''ceph.file.layout.pool''"

definition SRC_POOL :: string where
  "SRC_POOL = ''cephfs.ibu.data_ec42''"

definition DST_POOL :: string where
  "DST_POOL = ''cephfs.ibu.data_ec82''"

definition SCAN_FILE :: string where
  "SCAN_FILE = ''pool_scan.tab''"

section \<open>The file system the tool runs against\<close>

text \<open>
  The program is a client of the operating system: every effect it has is a system
  call. The file system is a finite map from path names to inodes. Hard links and
  symbolic links are outside the model (two different path names never denote one
  inode), and so are the set-id and sticky bits: \<open>perm\<close> holds the nine permission
  bits that Go's \<^verbatim>\<open>FileMode.Perm()\<close> selects. Times are abstract instants; reading a
  file does not move its access time. The program is the only process at work: nothing
  else changes the file system between two of its calls.
\<close>

type_synonym path = string

datatype errno =
  ENOENT | EEXIST | EISDIR | ENOTDIR | EACCES | ENOSPC | ENODATA | ERANGE | EIO | ENOTEMPTY

record inode =
  isdir :: bool
  content :: string
  perm :: "32 word"
  uid :: "32 word"
  gid :: "32 word"
  mtime :: nat
  atime :: nat
  xattrs :: "string \<rightharpoonup> string"

type_synonym filesys = "path \<rightharpoonup> inode"

datatype openflag = O_RDONLY | O_WRONLY | O_CREATE | O_EXCL | O_TRUNC

text \<open>
  The system calls the program issues, with their arguments. \<open>SysCopy dst src\<close> is
  the data transfer of \<^verbatim>\<open>io.Copy(dstFile, srcFile)\<close> between the two opened files;
  \<open>SysScan p\<close> is the reading of a whole file by a \<^verbatim>\<open>bufio.Scanner\<close>.
  \<open>SysGetxattr p k None\<close> is the size query (a nil buffer), \<open>SysGetxattr p k (Some n)\<close>
  the read into a buffer of \<open>n\<close> bytes.
\<close>

datatype syscall =
    SysOpenFile path "openflag list" "32 word"
  | SysSetxattr path string string
  | SysGetxattr path string "nat option"
  | SysCopy path path
  | SysChmod path "32 word"
  | SysChown path "32 word" "32 word"
  | SysChtimes path nat nat
  | SysRename path path
  | SysRemove path
  | SysStat path
  | SysScan path

text \<open>
  Failure injection. Each call first draws the next outcome of the fault schedule
  \<open>faults\<close>: \<open>Pass\<close> lets the call run against the file system (where it may still
  fail for a reason the model knows, such as a missing path), \<open>Fault e\<close> makes it fail
  with \<open>e\<close> and no effect, and \<open>FaultAfter k e\<close> makes a data transfer (a copy, or
  the reading of a file by a scanner) fail after \<open>k\<close> bytes; for the other calls it
  is \<open>Fault e\<close>. An exhausted schedule passes. Permission checks, quotas, a
  non-empty directory under \<^verbatim>\<open>rmdir\<close> and an over-long line under a scanner are all
  failures the schedule can produce.
\<close>

datatype outcome = Pass | Fault errno | FaultAfter nat errno

text \<open>
  What the program reports. Only the diagnostics on standard error and the final
  summary are recorded; progress lines and the other lines of standard output are
  not modelled.
\<close>

datatype mig_error =
    FailedCreateTemp errno
  | FailedSetXattr errno
  | FailedOpenSource errno
  | FailedOpenTemp errno
  | FailedCopy errno
  | FailedSetPermissions errno
  | FailedSetOwnership errno
  | FailedSetTimestamps errno
  | FailedRename errno

datatype scan_error =
    ScanFileDoesNotExist path
  | ScanOpenError errno
  | ScanReadError errno

datatype msg =
    MsgErrorAnalyzing scan_error
  | MsgErrorOpeningScan errno
  | MsgErrorAccessing path errno
  | MsgErrorReadingXattr path errno
  | MsgPoolMismatch path string
  | MsgErrorMigrating path mig_error
  | MsgErrorReadingScan errno
  | MsgSummary "64 word" "64 word" "64 word" "64 word"

text \<open>
  The history is ghost state: every system call is appended with its result and with
  the file system as it was when the call was made, every report with its message.
\<close>

datatype event = Call syscall "errno option" filesys | Report msg

record world =
  fs :: filesys
  now :: nat
  umask :: "32 word"
  euid :: "32 word"
  egid :: "32 word"
  faults :: "outcome list"
  history :: "event list"

definition mode_bits :: "32 word \<Rightarrow> 32 word" where
  "mode_bits m = m AND 0x1FF"

definition fresh_inode :: "32 word \<Rightarrow> world \<Rightarrow> inode" where
  "fresh_inode m w =
     \<lparr>isdir = False, content = [], perm = mode_bits m AND NOT (umask w),
      uid = euid w, gid = egid w, mtime = now w, atime = now w, xattrs = Map.empty\<rparr>"

text \<open>
  Writing \<open>new\<close> at offset 0 of a file holding \<open>old\<close>, without truncation: the bytes
  of \<open>old\<close> beyond the written range stay.
\<close>

definition overwrite :: "string \<Rightarrow> string \<Rightarrow> string" where
  "overwrite old new = new @ drop (length new) old"

text \<open>
  The effect of a call that the schedule lets pass: an error, or the new file system.
  The file system is CephFS, whose rule for the layout of a file is the reason the tool
  exists: the pool of a file can be set only as long as the file holds no data. On a
  file with data the call fails with \<open>ENOTEMPTY\<close> and changes nothing.
\<close>

fun unfaulted :: "syscall \<Rightarrow> world \<Rightarrow> errno + filesys" where
  "unfaulted (SysOpenFile p flags m) w =
     (case fs w p of
        None \<Rightarrow>
          if O_CREATE \<in> set flags then Inr ((fs w)(p \<mapsto> fresh_inode m w)) else Inl ENOENT
      | Some n \<Rightarrow>
          if O_CREATE \<in> set flags \<and> O_EXCL \<in> set flags then Inl EEXIST
          else if isdir n \<and> O_WRONLY \<in> set flags then Inl EISDIR
          else if O_TRUNC \<in> set flags \<and> O_WRONLY \<in> set flags
            then Inr ((fs w)(p \<mapsto> n\<lparr>content := [], mtime := now w\<rparr>))
          else Inr (fs w))"
| "unfaulted (SysSetxattr p k v) w =
     (case fs w p of
        None \<Rightarrow> Inl ENOENT
      | Some n \<Rightarrow>
          if k = XATTR_KEY \<and> content n \<noteq> [] then Inl ENOTEMPTY
          else Inr ((fs w)(p \<mapsto> n\<lparr>xattrs := (xattrs n)(k \<mapsto> v)\<rparr>)))"
| "unfaulted (SysGetxattr p k cap) w =
     (case fs w p of
        None \<Rightarrow> Inl ENOENT
      | Some n \<Rightarrow>
          (case xattrs n k of
             None \<Rightarrow> Inl ENODATA
           | Some v \<Rightarrow>
               (case cap of
                  None \<Rightarrow> Inr (fs w)
                | Some c \<Rightarrow> if c < length v then Inl ERANGE else Inr (fs w))))"
| "unfaulted (SysCopy dst src) w =
     (case fs w src of
        None \<Rightarrow> Inl ENOENT
      | Some s \<Rightarrow>
          if isdir s then Inl EISDIR
          else (case fs w dst of
                  None \<Rightarrow> Inl ENOENT
                | Some d \<Rightarrow>
                    if isdir d then Inl EISDIR
                    else Inr ((fs w)(dst \<mapsto>
                           d\<lparr>content := overwrite (content d) (content s), mtime := now w\<rparr>))))"
| "unfaulted (SysChmod p m) w =
     (case fs w p of
        None \<Rightarrow> Inl ENOENT
      | Some n \<Rightarrow> Inr ((fs w)(p \<mapsto> n\<lparr>perm := mode_bits m\<rparr>)))"
| "unfaulted (SysChown p u g) w =
     (case fs w p of
        None \<Rightarrow> Inl ENOENT
      | Some n \<Rightarrow> Inr ((fs w)(p \<mapsto> n\<lparr>uid := u, gid := g\<rparr>)))"
| "unfaulted (SysChtimes p a m) w =
     (case fs w p of
        None \<Rightarrow> Inl ENOENT
      | Some n \<Rightarrow> Inr ((fs w)(p \<mapsto> n\<lparr>atime := a, mtime := m\<rparr>)))"
| "unfaulted (SysRename old new) w =
     (case fs w old of
        None \<Rightarrow> Inl ENOENT
      | Some n \<Rightarrow>
          (case fs w new of
             None \<Rightarrow> Inr ((fs w)(new \<mapsto> n, old := None))
           | Some t \<Rightarrow>
               if isdir t \<and> \<not> isdir n then Inl EISDIR
               else if isdir n \<and> \<not> isdir t then Inl ENOTDIR
               else Inr ((fs w)(new \<mapsto> n, old := None))))"
| "unfaulted (SysRemove p) w =
     (case fs w p of
        None \<Rightarrow> Inl ENOENT
      | Some n \<Rightarrow> Inr ((fs w)(p := None)))"
| "unfaulted (SysStat p) w =
     (case fs w p of
        None \<Rightarrow> Inl ENOENT
      | Some n \<Rightarrow> Inr (fs w))"
| "unfaulted (SysScan p) w =
     (case fs w p of
        None \<Rightarrow> Inl ENOENT
      | Some n \<Rightarrow> if isdir n then Inl EISDIR else Inr (fs w))"

text \<open>A copy that fails after \<open>k\<close> bytes has written those bytes.\<close>

fun partial :: "syscall \<Rightarrow> nat \<Rightarrow> world \<Rightarrow> filesys" where
  "partial (SysCopy dst src) k w =
     (case fs w src of
        None \<Rightarrow> fs w
      | Some s \<Rightarrow>
          (case fs w dst of
             None \<Rightarrow> fs w
           | Some d \<Rightarrow>
               if isdir s \<or> isdir d then fs w
               else (fs w)(dst \<mapsto>
                      d\<lparr>content := overwrite (content d) (take k (content s)),
                        mtime := now w\<rparr>)))"
| "partial c k w = fs w"

definition next_outcome :: "world \<Rightarrow> outcome" where
  "next_outcome w = (case faults w of [] \<Rightarrow> Pass | x # xs \<Rightarrow> x)"

definition effect :: "syscall \<Rightarrow> world \<Rightarrow> errno option \<times> filesys" where
  "effect c w =
     (case next_outcome w of
        Pass \<Rightarrow> (case unfaulted c w of Inl e \<Rightarrow> (Some e, fs w) | Inr f \<Rightarrow> (None, f))
      | Fault e \<Rightarrow> (Some e, fs w)
      | FaultAfter k e \<Rightarrow> (Some e, partial c k w))"

text \<open>
  One system call: the outcome is drawn, the effect applied, the clock \<open>now\<close> (what
  \<^verbatim>\<open>time.Now()\<close> reads) advances and the call is appended to the history together with
  the file system it was made on. A file that \<^verbatim>\<open>open\<close> creates belongs to the
  effective user and group of the process and gets the requested permission bits
  without those of the \<open>umask\<close>.
\<close>

definition perform :: "syscall \<Rightarrow> world \<Rightarrow> errno option \<times> world" where
  "perform c w =
     (fst (effect c w),
      w\<lparr>fs := snd (effect c w),
        now := Suc (now w),
        faults := tl (faults w),
        history := history w @ [Call c (fst (effect c w)) (fs w)]\<rparr>)"

definition report :: "msg \<Rightarrow> world \<Rightarrow> world" where
  "report m w = w\<lparr>history := history w @ [Report m]\<rparr>"

section \<open>The library calls of the program\<close>

text \<open>
  \<^verbatim>\<open>os.FileInfo\<close> as the program reads it. \<open>Sys\<close> is the dynamic value behind
  \<^verbatim>\<open>info.Sys()\<close>: Go's \<^verbatim>\<open>os\<close> package stores a \<^verbatim>\<open>syscall.Stat_t\<close> and hands out a
  pointer to it, whereas \<^verbatim>\<open>golang.org/x/sys/unix\<close> declares a struct \<^verbatim>\<open>Stat_t\<close> of its
  own. A type assertion tells the two apart, so the model keeps them apart.
\<close>

datatype stat_t = Stat_t (Uid: "32 word") (Gid: "32 word")

datatype sysval = SyscallStat stat_t | UnixStat stat_t

record fileinfo =
  Size :: "64 word"
  Mode :: "32 word"
  ModTime :: nat
  IsDir :: bool
  Sys :: sysval

definition ModeDir :: "32 word" where
  "ModeDir = 0x80000000"

definition fileinfo_of :: "inode \<Rightarrow> fileinfo" where
  "fileinfo_of n =
     \<lparr>Size = of_nat (length (content n)),
      Mode = (if isdir n then perm n OR ModeDir else perm n),
      ModTime = mtime n,
      IsDir = isdir n,
      Sys = SyscallStat (Stat_t (uid n) (gid n))\<rparr>"

definition os_Stat :: "path \<Rightarrow> world \<Rightarrow> (errno + fileinfo) \<times> world" where
  "os_Stat p w =
     (case perform (SysStat p) w of
        (Some e, w') \<Rightarrow> (Inl e, w')
      | (None, w') \<Rightarrow>
          (case fs w p of None \<Rightarrow> (Inl ENOENT, w') | Some n \<Rightarrow> (Inr (fileinfo_of n), w')))"

definition os_OpenFile :: "path \<Rightarrow> openflag list \<Rightarrow> 32 word \<Rightarrow> world \<Rightarrow> errno option \<times> world" where
  "os_OpenFile p flags m w = perform (SysOpenFile p flags m) w"

definition os_Open :: "path \<Rightarrow> world \<Rightarrow> errno option \<times> world" where
  "os_Open p w = os_OpenFile p [O_RDONLY] 0 w"

definition unix_Setxattr :: "path \<Rightarrow> string \<Rightarrow> string \<Rightarrow> world \<Rightarrow> errno option \<times> world" where
  "unix_Setxattr p k v w = perform (SysSetxattr p k v) w"

definition io_Copy :: "path \<Rightarrow> path \<Rightarrow> world \<Rightarrow> errno option \<times> world" where
  "io_Copy dst src w = perform (SysCopy dst src) w"

definition os_Chmod :: "path \<Rightarrow> 32 word \<Rightarrow> world \<Rightarrow> errno option \<times> world" where
  "os_Chmod p m w = perform (SysChmod p m) w"

definition os_Chown :: "path \<Rightarrow> 32 word \<Rightarrow> 32 word \<Rightarrow> world \<Rightarrow> errno option \<times> world" where
  "os_Chown p u g w = perform (SysChown p u g) w"

definition os_Chtimes :: "path \<Rightarrow> nat \<Rightarrow> nat \<Rightarrow> world \<Rightarrow> errno option \<times> world" where
  "os_Chtimes p a m w = perform (SysChtimes p a m) w"

definition os_Rename :: "path \<Rightarrow> path \<Rightarrow> world \<Rightarrow> errno option \<times> world" where
  "os_Rename old new w = perform (SysRename old new) w"

definition os_Remove :: "path \<Rightarrow> world \<Rightarrow> errno option \<times> world" where
  "os_Remove p w = perform (SysRemove p) w"

section \<open>The Migration Executor\<close>

text \<open>
  \<^verbatim>\<open>migrateFile\<close> (lines 232-290), call by call. The files are opened and closed in
  the source; the model has no descriptors, since nothing renames or removes a path
  between its \<^verbatim>\<open>open\<close> and its use. The result is \<open>None\<close> for Go's \<^verbatim>\<open>nil\<close> error.
  Each \<^verbatim>\<open>os.Remove(tmpPath)\<close> of the source discards its own result.
\<close>

definition migrateFile :: "path \<Rightarrow> fileinfo \<Rightarrow> world \<Rightarrow> mig_error option \<times> world" where
  "migrateFile path info w0 =
     (let tmpPath = path @ ''.mig'' in
      case os_OpenFile tmpPath [O_CREATE, O_WRONLY] (Mode info) w0 of
        (Some err, w1) \<Rightarrow> (Some (FailedCreateTemp err), w1)
      | (None, w1) \<Rightarrow>
      (case unix_Setxattr tmpPath XATTR_KEY DST_POOL w1 of
        (Some err, w2) \<Rightarrow> (Some (FailedSetXattr err), snd (os_Remove tmpPath w2))
      | (None, w2) \<Rightarrow>
      (case os_Open path w2 of
        (Some err, w3) \<Rightarrow> (Some (FailedOpenSource err), snd (os_Remove tmpPath w3))
      | (None, w3) \<Rightarrow>
      (case os_OpenFile tmpPath [O_WRONLY] 0 w3 of
        (Some err, w4) \<Rightarrow> (Some (FailedOpenTemp err), snd (os_Remove tmpPath w4))
      | (None, w4) \<Rightarrow>
      (case io_Copy tmpPath path w4 of
        (Some err, w5) \<Rightarrow> (Some (FailedCopy err), snd (os_Remove tmpPath w5))
      | (None, w5) \<Rightarrow>
      (case os_Chmod tmpPath (Mode info) w5 of
        (Some err, w6) \<Rightarrow> (Some (FailedSetPermissions err), snd (os_Remove tmpPath w6))
      | (None, w6) \<Rightarrow>
      (case (case Sys info of
               UnixStat st \<Rightarrow> os_Chown tmpPath (Uid st) (Gid st) w6
             | SyscallStat st \<Rightarrow> (None, w6)) of
        (Some err, w7) \<Rightarrow> (Some (FailedSetOwnership err), snd (os_Remove tmpPath w7))
      | (None, w7) \<Rightarrow>
      (case os_Chtimes tmpPath (now w7) (ModTime info) w7 of
        (Some err, w8) \<Rightarrow> (Some (FailedSetTimestamps err), snd (os_Remove tmpPath w8))
      | (None, w8) \<Rightarrow>
      (case os_Rename tmpPath path w8 of
        (Some err, w9) \<Rightarrow> (Some (FailedRename err), snd (os_Remove tmpPath w9))
      | (None, w9) \<Rightarrow> (None, w9))))))))))"

section \<open>The Attribute Inspector\<close>

text \<open>
  \<^verbatim>\<open>unix.Getxattr\<close> returns the size of the attribute and, when given a buffer, fills
  it. \<^verbatim>\<open>getXattr\<close> (lines 221-230) asks for the size, allocates a zeroed buffer of
  that size and reads into it; the pair it returns is the buffer and the error of the
  second call (\<open>[]\<close> stands for Go's \<^verbatim>\<open>nil\<close> slice).
\<close>

definition unix_Getxattr ::
  "path \<Rightarrow> string \<Rightarrow> nat option \<Rightarrow> world \<Rightarrow> (errno + nat \<times> string) \<times> world" where
  "unix_Getxattr p k cap w =
     (case perform (SysGetxattr p k cap) w of
        (Some e, w') \<Rightarrow> (Inl e, w')
      | (None, w') \<Rightarrow>
          (case fs w p of
             None \<Rightarrow> (Inl ENOENT, w')
           | Some n \<Rightarrow>
               (case xattrs n k of
                  None \<Rightarrow> (Inl ENODATA, w')
                | Some v \<Rightarrow> (Inr (length v, v), w'))))"

definition getXattr :: "path \<Rightarrow> world \<Rightarrow> (string \<times> errno option) \<times> world" where
  "getXattr p w0 =
     (case unix_Getxattr p XATTR_KEY None w0 of
        (Inl err, w1) \<Rightarrow> (([], Some err), w1)
      | (Inr (sz, unused), w1) \<Rightarrow>
          (case unix_Getxattr p XATTR_KEY (Some sz) w1 of
             (Inl err, w2) \<Rightarrow> ((replicate sz (CHR 0x00), Some err), w2)
           | (Inr (n, v), w2) \<Rightarrow> ((v @ replicate (sz - n) (CHR 0x00), None), w2)))"

section \<open>The Record Source\<close>

text \<open>
  \<^verbatim>\<open>strings.Fields\<close> splits around runs of the runes for which \<^verbatim>\<open>unicode.IsSpace\<close>
  holds. A Go string is a byte sequence, here a \<open>string\<close>. \<open>space_width s\<close> is the
  number of bytes of the white-space rune that \<open>s\<close> starts with, and \<open>0\<close> when it
  starts with none: the six ASCII spaces, U+0085 and U+00A0 (two bytes in UTF-8), and
  U+1680, U+2000 to U+200A, U+2028, U+2029, U+202F, U+205F and U+3000 (three bytes).
  Every other rune is stepped over one byte at a time: none of its later bytes can
  start a white-space rune, since those are continuation bytes (\<open>0x80\<close> to \<open>0xBF\<close>),
  and Go's decoder steps over a byte that starts no valid encoding in the same way.
\<close>

definition byte :: "char \<Rightarrow> nat" where
  "byte c = of_char c"

fun space_width :: "string \<Rightarrow> nat" where
  "space_width [] = 0"
| "space_width (c # cs) =
     (if byte c = 0x20 \<or> (0x09 \<le> byte c \<and> byte c \<le> 0x0D) then 1
      else if byte c = 0xC2 then
        (case cs of
           d # ds \<Rightarrow> if byte d = 0x85 \<or> byte d = 0xA0 then 2 else 0
         | [] \<Rightarrow> 0)
      else if byte c = 0xE1 then
        (case cs of
           d # e # es \<Rightarrow> if byte d = 0x9A \<and> byte e = 0x80 then 3 else 0
         | _ \<Rightarrow> 0)
      else if byte c = 0xE2 then
        (case cs of
           d # e # es \<Rightarrow>
             if byte d = 0x80 \<and>
                ((0x80 \<le> byte e \<and> byte e \<le> 0x8A) \<or> byte e = 0xA8 \<or> byte e = 0xA9
                 \<or> byte e = 0xAF)
               then 3
             else if byte d = 0x81 \<and> byte e = 0x9F then 3
             else 0
         | _ \<Rightarrow> 0)
      else if byte c = 0xE3 then
        (case cs of
           d # e # es \<Rightarrow> if byte d = 0x80 \<and> byte e = 0x80 then 3 else 0
         | _ \<Rightarrow> 0)
      else 0)"

text \<open>
  The scan of \<^verbatim>\<open>strings.Fields\<close>: \<open>cur\<close> is the field being read (empty when the
  scan is between fields).
\<close>

function fields_from :: "string \<Rightarrow> string \<Rightarrow> string list" where
  "fields_from cur [] = (if cur = [] then [] else [cur])"
| "fields_from cur (c # cs) =
     (if space_width (c # cs) = 0 then fields_from (cur @ [c]) cs
      else (if cur = [] then [] else [cur])
           @ fields_from [] (drop (space_width (c # cs) - 1) cs))"
  by pat_completeness auto
termination
  by (relation "measure (\<lambda>(cur, s). length s)") auto

definition Fields :: "string \<Rightarrow> string list" where
  "Fields s = fields_from [] s"

text \<open>
  \<^verbatim>\<open>bufio.ScanLines\<close>: the tokens are the lines of the input without their end-of-line
  marker (a newline, with one carriage return before it dropped); a last line without
  newline is a token when it is not empty.
\<close>

definition dropCR :: "string \<Rightarrow> string" where
  "dropCR s = (if s \<noteq> [] \<and> last s = CHR 0x0D then butlast s else s)"

fun lines_from :: "string \<Rightarrow> string \<Rightarrow> string list" where
  "lines_from cur [] = (if cur = [] then [] else [dropCR cur])"
| "lines_from cur (c # cs) =
     (if c = CHR 0x0A then dropCR cur # lines_from [] cs else lines_from (cur @ [c]) cs)"

definition ScanLines :: "string \<Rightarrow> string list" where
  "ScanLines s = lines_from [] s"

text \<open>
  A \<^verbatim>\<open>bufio.Scanner\<close> over an opened file, run to its end: the lines its \<^verbatim>\<open>Scan\<close> loop
  yields and the value of \<^verbatim>\<open>scanner.Err()\<close> after the loop. The source reads the file
  lazily while it works on the lines; the model reads it when the scanner is made, from
  the inode that was opened. A read fault after \<open>k\<close> bytes is the outcome
  \<open>FaultAfter k e\<close>: once a read has failed, the scanner hands what it has buffered
  to the split function as if the input ended there, so the loop yields the lines of
  the first \<open>k\<close> bytes, the last of them cut short when the fault falls inside a
  line, and ends with the error.
\<close>

definition bufio_Scan :: "path \<Rightarrow> world \<Rightarrow> (string list \<times> errno option) \<times> world" where
  "bufio_Scan p w =
     (case perform (SysScan p) w of
        (None, w') \<Rightarrow>
          (case fs w p of
             None \<Rightarrow> (([], Some ENOENT), w')
           | Some n \<Rightarrow> ((ScanLines (content n), None), w'))
      | (Some e, w') \<Rightarrow>
          (case next_outcome w of
             FaultAfter k e' \<Rightarrow>
               (case fs w p of
                  None \<Rightarrow> (([], Some e), w')
                | Some n \<Rightarrow> ((ScanLines (take k (content n)), Some e), w'))
           | _ \<Rightarrow> (([], Some e), w')))"

section \<open>The Distribution Analyzer\<close>

text \<open>
  Go's \<^verbatim>\<open>int\<close> and \<^verbatim>\<open>int64\<close> are 64-bit words (on a 64-bit platform); \<open>+\<close> wraps.
  A \<^verbatim>\<open>map[string]int\<close> is a partial map, and reading a key it does not hold gives 0.
\<close>

type_synonym pool_stats = "string \<rightharpoonup> 64 word"

definition lookup0 :: "pool_stats \<Rightarrow> string \<Rightarrow> 64 word" where
  "lookup0 m k = (case m k of None \<Rightarrow> 0 | Some c \<Rightarrow> c)"

text \<open>The body of the loop of \<^verbatim>\<open>analyzePoolScan\<close> (lines 211-214).\<close>

definition count_line :: "pool_stats \<Rightarrow> string \<Rightarrow> pool_stats" where
  "count_line poolStats line =
     (let fields = Fields line in
      if length fields \<ge> 2 then poolStats(fields ! 0 \<mapsto> lookup0 poolStats (fields ! 0) + 1)
      else poolStats)"

text \<open>
  \<^verbatim>\<open>analyzePoolScan\<close> (lines 187-219): the result of \<^verbatim>\<open>os.Stat\<close> is only tested for
  \<^verbatim>\<open>os.IsNotExist\<close>; the function returns the counts together with \<^verbatim>\<open>scanner.Err()\<close>.
\<close>

definition analyzePoolScan :: "path \<Rightarrow> world \<Rightarrow> (pool_stats \<times> scan_error option) \<times> world" where
  "analyzePoolScan scanPath w0 =
     (case os_Stat scanPath w0 of
        (st, w1) \<Rightarrow>
          if (case st of Inl e \<Rightarrow> e = ENOENT | Inr info \<Rightarrow> False)
            then ((Map.empty, Some (ScanFileDoesNotExist scanPath)), w1)
          else
            (case os_Open scanPath w1 of
               (Some err, w2) \<Rightarrow> ((Map.empty, Some (ScanOpenError err)), w2)
             | (None, w2) \<Rightarrow>
                 (case bufio_Scan scanPath w2 of
                    ((lines, serr), w3) \<Rightarrow>
                      ((foldl count_line Map.empty lines, map_option ScanReadError serr), w3))))"

section \<open>The Run Coordinator\<close>

record config =
  cephRoot :: path
  dryRun :: bool
  verbose :: bool

record counters =
  total :: "64 word"
  migrated :: "64 word"
  errors :: "64 word"
  bytesTotal :: "64 word"
  lineCount :: "64 word"

definition no_counts :: counters where
  "no_counts = \<lparr>total = 0, migrated = 0, errors = 0, bytesTotal = 0, lineCount = 0\<rparr>"

definition report_if :: "bool \<Rightarrow> msg \<Rightarrow> world \<Rightarrow> world" where
  "report_if b m w = (if b then report m w else w)"

text \<open>
  The body of the loop of \<^verbatim>\<open>main\<close> (lines 98-167) for one line of the scan file.
  \<open>join\<close> stands for \<^verbatim>\<open>filepath.Join\<close>, which no property below depends on.
\<close>

definition process_line ::
  "(path \<Rightarrow> path \<Rightarrow> path) \<Rightarrow> config \<Rightarrow> counters \<times> world \<Rightarrow> string \<Rightarrow> counters \<times> world" where
  "process_line join cfg st line =
     (case st of (c0, w0) \<Rightarrow>
      let c1 = c0\<lparr>lineCount := lineCount c0 + 1\<rparr>;
          fields = Fields line in
      if length fields < 2 then (c1, w0)
      else
        let c2 = c1\<lparr>total := total c1 + 1\<rparr>;
            pool = fields ! 0 in
        if pool \<noteq> SRC_POOL then (c2, w0)
        else
          let absPath = join (cephRoot cfg) (fields ! 1) in
          (case os_Stat absPath w0 of
             (Inl err, w1) \<Rightarrow>
               (c2\<lparr>errors := errors c2 + 1\<rparr>,
                report_if (verbose cfg) (MsgErrorAccessing absPath err) w1)
           | (Inr info, w1) \<Rightarrow>
               if IsDir info then (c2, w1)
               else
                 (case getXattr absPath w1 of
                    ((currentPool, xerr), w2) \<Rightarrow>
                      if xerr \<noteq> None \<or> currentPool \<noteq> SRC_POOL then
                        (c2\<lparr>errors := errors c2 + 1\<rparr>,
                         report_if (verbose cfg)
                           (case xerr of
                              Some err \<Rightarrow> MsgErrorReadingXattr absPath err
                            | None \<Rightarrow> MsgPoolMismatch absPath currentPool) w2)
                      else if \<not> dryRun cfg then
                        (case migrateFile absPath info w2 of
                           (Some err, w3) \<Rightarrow>
                             (c2\<lparr>errors := errors c2 + 1\<rparr>,
                              report (MsgErrorMigrating absPath err) w3)
                         | (None, w3) \<Rightarrow>
                             (c2\<lparr>migrated := migrated c2 + 1,
                                 bytesTotal := bytesTotal c2 + Size info\<rparr>, w3))
                      else
                        (c2\<lparr>migrated := migrated c2 + 1,
                            bytesTotal := bytesTotal c2 + Size info\<rparr>, w2))))"

text \<open>
  \<^verbatim>\<open>main\<close> (lines 23-185) after flag parsing. \<open>answer\<close> tells whether the operator's
  reply to the prompt is \<^verbatim>\<open>y\<close> or \<^verbatim>\<open>yes\<close>. The result is the exit status of the process
  and the counters at that moment.
\<close>

definition main ::
  "(path \<Rightarrow> path \<Rightarrow> path) \<Rightarrow> config \<Rightarrow> bool \<Rightarrow> world \<Rightarrow> (nat \<times> counters) \<times> world" where
  "main join cfg answer w0 =
     (let scanPath = join (cephRoot cfg) SCAN_FILE in
      case analyzePoolScan scanPath w0 of
        ((poolStats, Some err), w1) \<Rightarrow> ((1, no_counts), report (MsgErrorAnalyzing err) w1)
      | ((poolStats, None), w1) \<Rightarrow>
          if lookup0 poolStats SRC_POOL = 0 then ((0, no_counts), w1)
          else if \<not> dryRun cfg \<and> \<not> answer then ((0, no_counts), w1)
          else
            (case os_Open scanPath w1 of
               (Some err, w2) \<Rightarrow> ((1, no_counts), report (MsgErrorOpeningScan err) w2)
             | (None, w2) \<Rightarrow>
                 (case bufio_Scan scanPath w2 of
                    ((lines, serr), w3) \<Rightarrow>
                      (case foldl (process_line join cfg) (no_counts, w3) lines of
                         (c, w4) \<Rightarrow>
                           let w5 = (case serr of
                                       Some err \<Rightarrow> report (MsgErrorReadingScan err) w4
                                     | None \<Rightarrow> w4)
                           in ((0, c),
                               report (MsgSummary (lineCount c) (migrated c) (bytesTotal c)
                                         (errors c)) w5)))))"

section \<open>Notions used to state and prove the properties\<close>

text \<open>The paths whose inode a call can change.\<close>

fun targets :: "syscall \<Rightarrow> path list" where
  "targets (SysOpenFile p flags m) =
     (if O_CREATE \<in> set flags \<or> O_TRUNC \<in> set flags then [p] else [])"
| "targets (SysSetxattr p k v) = [p]"
| "targets (SysGetxattr p k cap) = []"
| "targets (SysCopy dst src) = [dst]"
| "targets (SysChmod p m) = [p]"
| "targets (SysChown p u g) = [p]"
| "targets (SysChtimes p a m) = [p]"
| "targets (SysRename old new) = [old, new]"
| "targets (SysRemove p) = [p]"
| "targets (SysStat p) = []"
| "targets (SysScan p) = []"

text \<open>An event touches a path when it is a call that can change the inode there.\<close>

definition touches :: "path \<Rightarrow> event \<Rightarrow> bool" where
  "touches p ev = (case ev of Call c r s \<Rightarrow> p \<in> set (targets c) | Report m \<Rightarrow> False)"

text \<open>The events that a computation from \<open>w\<close> to \<open>w'\<close> appended to the history.\<close>

definition new_events :: "world \<Rightarrow> world \<Rightarrow> event list" where
  "new_events w w' = drop (length (history w)) (history w')"

text \<open>
  The step of the protocol (1 to 7) that an error of the executor belongs to: the two
  opens and the copy are step 3.
\<close>

fun step_of :: "mig_error \<Rightarrow> nat" where
  "step_of (FailedCreateTemp e) = 1"
| "step_of (FailedSetXattr e) = 2"
| "step_of (FailedOpenSource e) = 3"
| "step_of (FailedOpenTemp e) = 3"
| "step_of (FailedCopy e) = 3"
| "step_of (FailedSetPermissions e) = 4"
| "step_of (FailedSetOwnership e) = 5"
| "step_of (FailedSetTimestamps e) = 6"
| "step_of (FailedRename e) = 7"

text \<open>
  The executor as a script: the calls it makes in order, each with the error it is
  wrapped into, run until the first failure; every failure but that of the first call
  is followed by the removal of the temporary path. \<open>migrateFile_run_plan\<close> below
  proves that this is \<open>migrateFile\<close>; \<open>staging\<close> is the part before the rename.
\<close>

type_synonym plan_item = "(world \<Rightarrow> syscall) \<times> (errno \<Rightarrow> mig_error)"

definition staging :: "path \<Rightarrow> fileinfo \<Rightarrow> plan_item list" where
  "staging path info =
     [(\<lambda>w. SysOpenFile (path @ ''.mig'') [O_CREATE, O_WRONLY] (Mode info), FailedCreateTemp),
      (\<lambda>w. SysSetxattr (path @ ''.mig'') XATTR_KEY DST_POOL, FailedSetXattr),
      (\<lambda>w. SysOpenFile path [O_RDONLY] 0, FailedOpenSource),
      (\<lambda>w. SysOpenFile (path @ ''.mig'') [O_WRONLY] 0, FailedOpenTemp),
      (\<lambda>w. SysCopy (path @ ''.mig'') path, FailedCopy),
      (\<lambda>w. SysChmod (path @ ''.mig'') (Mode info), FailedSetPermissions)]
     @ (case Sys info of
          UnixStat st \<Rightarrow> [(\<lambda>w. SysChown (path @ ''.mig'') (Uid st) (Gid st), FailedSetOwnership)]
        | SyscallStat st \<Rightarrow> [])
     @ [(\<lambda>w. SysChtimes (path @ ''.mig'') (now w) (ModTime info), FailedSetTimestamps)]"

definition plan :: "path \<Rightarrow> fileinfo \<Rightarrow> plan_item list" where
  "plan path info = staging path info @ [(\<lambda>w. SysRename (path @ ''.mig'') path, FailedRename)]"

fun run_plan :: "bool \<Rightarrow> path \<Rightarrow> plan_item list \<Rightarrow> world \<Rightarrow> mig_error option \<times> world" where
  "run_plan first tmp [] w = (None, w)"
| "run_plan first tmp (item # rest) w =
     (case perform (fst item w) w of
        (Some err, w1) \<Rightarrow>
          (Some (snd item err), if first then w1 else snd (perform (SysRemove tmp) w1))
      | (None, w1) \<Rightarrow> run_plan False tmp rest w1)"

text \<open>The calls of a history with their results, in order.\<close>

fun calls :: "event list \<Rightarrow> (syscall \<times> errno option) list" where
  "calls [] = []"
| "calls (Call c r s # evs) = (c, r) # calls evs"
| "calls (Report m # evs) = calls evs"

text \<open>The inode a path held when the call of an event was made.\<close>

definition seen_at :: "event \<Rightarrow> path \<Rightarrow> inode option" where
  "seen_at ev p = (case ev of Call c r s \<Rightarrow> s p | Report m \<Rightarrow> None)"

text \<open>An event inspects when it is a report or a call that cannot change any inode.\<close>

definition inspects :: "event \<Rightarrow> bool" where
  "inspects ev = (case ev of Call c r s \<Rightarrow> targets c = [] | Report m \<Rightarrow> True)"

text \<open>A line is a well-formed scan record that names the pool \<open>p\<close>.\<close>

definition names_pool :: "string \<Rightarrow> string \<Rightarrow> bool" where
  "names_pool p line = (2 \<le> length (Fields line) \<and> Fields line ! 0 = p)"


text \<open>
  A computation from \<open>w\<close> to \<open>w'\<close> leaves the path \<open>q\<close> alone: the inode at
  \<open>q\<close> is the same and none of the calls made in between can change the inode at
  \<open>q\<close>.
\<close>

definition leaves_alone :: "path \<Rightarrow> world \<Rightarrow> world \<Rightarrow> bool" where
  "leaves_alone q w w' =
     (fs w' q = fs w q \<and> (\<exists>evs. history w' = history w @ evs \<and> (\<forall>ev\<in>set evs. \<not> touches q ev)))"

text \<open>
  Strings of ASCII white space, and non-empty strings of bytes that are neither ASCII
  white space nor the first byte of a white-space rune outside ASCII.
\<close>

definition ascii_space :: "char \<Rightarrow> bool" where
  "ascii_space c = (byte c = 0x20 \<or> (0x09 \<le> byte c \<and> byte c \<le> 0x0D))"

definition blank :: "string \<Rightarrow> bool" where
  "blank s = list_all ascii_space s"

definition solid :: "string \<Rightarrow> bool" where
  "solid s = (s \<noteq> [] \<and>
     list_all (\<lambda>c. \<not> ascii_space c \<and> byte c \<noteq> 0xC2 \<and> byte c \<noteq> 0xE1 \<and> byte c \<noteq> 0xE2
                 \<and> byte c \<noteq> 0xE3) s)"

section \<open>Example worlds\<close>

definition demo_inode :: inode where
  "demo_inode =
     \<lparr>isdir = False, content = ''data'', perm = 0x1B4, uid = 1000, gid = 1000,
      mtime = 5, atime = 6, xattrs = [XATTR_KEY \<mapsto> SRC_POOL]\<rparr>"

definition demo_info :: fileinfo where
  "demo_info = fileinfo_of demo_inode"

definition demo_world :: world where
  "demo_world =
     \<lparr>fs = [''/ceph/a.bin'' \<mapsto> demo_inode], now = 100, umask = 0x12, euid = 1000, egid = 1000,
      faults = [], history = []\<rparr>"

text \<open>The same world with a file left behind at the temporary path.\<close>

definition stale_inode :: inode where
  "stale_inode =
     \<lparr>isdir = False, content = ''stale bytes'', perm = 0x180, uid = 7, gid = 7,
      mtime = 1, atime = 2, xattrs = Map.empty\<rparr>"

definition stale_world :: world where
  "stale_world = demo_world\<lparr>fs := (fs demo_world)(''/ceph/a.bin.mig'' \<mapsto> stale_inode)\<rparr>"

text \<open>The same world with the tool run by the superuser.\<close>

definition root_world :: world where
  "root_world = demo_world\<lparr>euid := 0, egid := 0\<rparr>"

text \<open>A run configuration, a directory and an already migrated file.\<close>

definition demo_join :: "path \<Rightarrow> path \<Rightarrow> path" where
  "demo_join root rel = root @ ''/'' @ rel"

definition demo_cfg :: config where
  "demo_cfg = \<lparr>cephRoot = ''/ceph'', dryRun = False, verbose = True\<rparr>"

definition dir_world :: world where
  "dir_world = demo_world\<lparr>fs := (fs demo_world)(''/ceph/sub'' \<mapsto> demo_inode\<lparr>isdir := True\<rparr>)\<rparr>"

definition done_inode :: inode where
  "done_inode = demo_inode\<lparr>xattrs := [XATTR_KEY \<mapsto> DST_POOL]\<rparr>"

definition done_world :: world where
  "done_world = demo_world\<lparr>fs := [''/ceph/a.bin'' \<mapsto> done_inode]\<rparr>"

text \<open>A scan file with the records (A, p1), (A, p2) and (B, p3).\<close>

definition tally_inode :: inode where
  "tally_inode = demo_inode\<lparr>content :=
     ''A p1'' @ [CHR 0x0A] @ ''A p2'' @ [CHR 0x0A] @ ''B p3'' @ [CHR 0x0A], xattrs := Map.empty\<rparr>"

definition tally_world :: world where
  "tally_world = demo_world\<lparr>fs := [''/ceph/pool_scan.tab'' \<mapsto> tally_inode]\<rparr>"

text \<open>
  A scan file with two records of the source pool, and a schedule under which the
  second reading of the scan file fails after the 27 bytes of its first line.
\<close>

definition scan_inode :: inode where
  "scan_inode = demo_inode\<lparr>content :=
     ''cephfs.ibu.data_ec42 a.bin'' @ [CHR 0x0A] @ ''cephfs.ibu.data_ec42 b.bin'' @ [CHR 0x0A],
     xattrs := Map.empty\<rparr>"

definition scan_world :: world where
  "scan_world = demo_world\<lparr>fs :=
     [''/ceph/pool_scan.tab'' \<mapsto> scan_inode, ''/ceph/a.bin'' \<mapsto> demo_inode,
      ''/ceph/b.bin'' \<mapsto> demo_inode]\<rparr>"

definition faulty_world :: world where
  "faulty_world = scan_world\<lparr>faults := [Pass, Pass, Pass, Pass, FaultAfter 27 EIO]\<rparr>"




section \<open>Basic facts\<close>

lemma tmp_path_differs: "path @ ''.mig'' \<noteq> path"
  by simp

lemmas lib_defs = os_OpenFile_def os_Open_def unix_Setxattr_def io_Copy_def os_Chmod_def
  os_Chown_def os_Chtimes_def os_Rename_def os_Remove_def

lemma migrateFile_run_plan:
  "migrateFile path info w = run_plan True (path @ ''.mig'') (plan path info) w"
  by (cases "Sys info")
     (simp_all add: migrateFile_def plan_def staging_def lib_defs Let_def
        cong: option.case_cong prod.case_cong)

subsection \<open>One call\<close>

lemma unfaulted_frame: "unfaulted c w = Inr f \<Longrightarrow> q \<notin> set (targets c) \<Longrightarrow> f q = fs w q"
  by (cases c) (auto split: option.splits if_splits)

lemma partial_frame: "q \<notin> set (targets c) \<Longrightarrow> partial c k w q = fs w q"
  by (cases c) (auto split: option.splits if_splits)

lemma effect_frame: "q \<notin> set (targets c) \<Longrightarrow> snd (effect c w) q = fs w q"
  by (auto simp: effect_def partial_frame split: outcome.splits sum.splits dest: unfaulted_frame)

lemma perform_frame: "q \<notin> set (targets c) \<Longrightarrow> fs (snd (perform c w)) q = fs w q"
  by (simp add: perform_def effect_frame)

lemma unfaulted_readonly: "targets c = [] \<Longrightarrow> unfaulted c w = Inr f \<Longrightarrow> f = fs w"
  by (cases c) (auto split: option.splits if_splits)

lemma partial_readonly: "targets c = [] \<Longrightarrow> partial c k w = fs w"
  by (cases c) (auto split: option.splits if_splits)

lemma perform_readonly: "targets c = [] \<Longrightarrow> fs (snd (perform c w)) = fs w"
  by (auto simp: perform_def effect_def partial_readonly split: outcome.splits sum.splits
      dest: unfaulted_readonly)

lemma perform_history:
  "history (snd (perform c w)) = history w @ [Call c (fst (perform c w)) (fs w)]"
  by (simp add: perform_def)

lemma perform_env [simp]:
  "now (snd (perform c w)) = Suc (now w)"
  "umask (snd (perform c w)) = umask w"
  "euid (snd (perform c w)) = euid w"
  "egid (snd (perform c w)) = egid w"
  "faults (snd (perform c w)) = tl (faults w)"
  by (simp_all add: perform_def)

lemma perform_success:
  "fst (perform c w) = None \<Longrightarrow> next_outcome w = Pass \<and> unfaulted c w = Inr (fs (snd (perform c w)))"
  by (auto simp: perform_def effect_def split: outcome.splits sum.splits)

lemma perform_failure_frame:
  "fst (perform c w) = Some e \<Longrightarrow> (\<forall>k e'. next_outcome w \<noteq> FaultAfter k e') \<Longrightarrow> fs (snd (perform c w)) = fs w"
  by (auto simp: perform_def effect_def split: outcome.splits sum.splits)

lemma remove_success:
  "fst (perform (SysRemove p) w) = None \<Longrightarrow> fs (snd (perform (SysRemove p) w)) p = None"
  by (auto simp: perform_def effect_def split: outcome.splits sum.splits option.splits)

subsection \<open>A run of calls\<close>

lemma run_plan_append:
  "run_plan first tmp (xs @ ys) w =
     (case run_plan first tmp xs w of
        (Some e, w') \<Rightarrow> (Some e, w')
      | (None, w') \<Rightarrow> run_plan (first \<and> xs = []) tmp ys w')"
  by (induction xs arbitrary: first w) (auto split: prod.splits option.splits)

lemma run_plan_frame:
  "(\<And>item w'. item \<in> set items \<Longrightarrow> q \<notin> set (targets (fst item w'))) \<Longrightarrow> q \<noteq> tmp \<Longrightarrow>
   fs (snd (run_plan first tmp items w)) q = fs w q"
proof (induction items arbitrary: first w)
  case Nil
  then show ?case by simp
next
  case (Cons item items)
  obtain r w1 where p: "perform (fst item w) w = (r, w1)" by force
  have f1: "fs w1 q = fs w q"
    using perform_frame[of q "fst item w" w] Cons.prems(1)[of item w] p by simp
  show ?case
  proof (cases r)
    case None
    then show ?thesis using p f1 Cons.IH[of False w1] Cons.prems by simp
  next
    case (Some e)
    then show ?thesis using p f1 Cons.prems(2) perform_frame[of q "SysRemove tmp" w1] by simp
  qed
qed

lemma run_plan_history:
  "\<exists>evs. history (snd (run_plan first tmp items w)) = history w @ evs
     \<and> (\<forall>ev\<in>set evs. \<exists>c r s. ev = Call c r s \<and>
           (c = SysRemove tmp \<or> (\<exists>item\<in>set items. \<exists>w'. c = fst item w')))"
proof (induction items arbitrary: first w)
  case Nil
  then show ?case by simp
next
  case (Cons item items)
  obtain r w1 where p: "perform (fst item w) w = (r, w1)" by force
  have h1: "history w1 = history w @ [Call (fst item w) r (fs w)]"
    using perform_history[of "fst item w" w] p by simp
  show ?case
  proof (cases r)
    case None
    from Cons.IH[of False w1] obtain evs where
      e: "history (snd (run_plan False tmp items w1)) = history w1 @ evs"
         "\<forall>ev\<in>set evs. \<exists>c r s. ev = Call c r s \<and>
           (c = SysRemove tmp \<or> (\<exists>item\<in>set items. \<exists>w'. c = fst item w'))"
      by blast
    have "history (snd (run_plan first tmp (item # items) w))
            = history w @ (Call (fst item w) r (fs w) # evs)"
      using p None e(1) h1 by simp
    moreover have "\<forall>ev\<in>set (Call (fst item w) r (fs w) # evs). \<exists>c r s. ev = Call c r s \<and>
           (c = SysRemove tmp \<or> (\<exists>it\<in>set (item # items). \<exists>w'. c = fst it w'))"
      using e(2) by fastforce
    ultimately show ?thesis by blast
  next
    case (Some e)
    show ?thesis
    proof (cases first)
      case True
      have "history (snd (run_plan first tmp (item # items) w))
              = history w @ [Call (fst item w) r (fs w)]"
        using p Some True h1 by simp
      then show ?thesis by fastforce
    next
      case False
      have "history (snd (run_plan first tmp (item # items) w))
              = history w @ [Call (fst item w) r (fs w),
                             Call (SysRemove tmp) (fst (perform (SysRemove tmp) w1)) (fs w1)]"
        using p Some False h1 perform_history[of "SysRemove tmp" w1] by simp
      then show ?thesis by fastforce
    qed
  qed
qed

lemma new_events_app: "history w' = history w @ evs \<Longrightarrow> new_events w w' = evs"
  by (simp add: new_events_def)

lemma staging_targets:
  "item \<in> set (staging path info) \<Longrightarrow> path \<notin> set (targets (fst item w'))"
  by (cases "Sys info") (auto simp: staging_def)

lemma staging_nonempty: "staging path info \<noteq> []"
  by (simp add: staging_def)


lemmas demo_defs = demo_world_def demo_inode_def demo_info_def
  stale_world_def stale_inode_def
  fileinfo_of_def fresh_inode_def mode_bits_def overwrite_def seen_at_def new_events_def
  XATTR_KEY_def SRC_POOL_def DST_POOL_def

lemmas run_defs = migrateFile_def lib_defs perform_def effect_def next_outcome_def Let_def

section \<open>Crash safety of the executor\<close>

text \<open>
  Claim C1. When the executor returns an error of one of the steps 1 to 6, the file at
  the original path has the content and the attributes it had before the call (a
  missing file is still missing), and no call the executor made can change the inode
  at the original path: all of them act on the temporary path, or only read.
\<close>

theorem original_untouched_when_staging_fails:
  assumes run: "migrateFile path info w = (Some e, w')"
    and early: "step_of e \<le> 6"
  shows "map_option content (fs w' path) = map_option content (fs w path)
       \<and> map_option xattrs (fs w' path) = map_option xattrs (fs w path)
       \<and> (\<forall>ev\<in>set (new_events w w'). \<not> touches path ev)"
proof -
  let ?tmp = "path @ ''.mig''"
  obtain r1 w1 where st: "run_plan True ?tmp (staging path info) w = (r1, w1)" by force
  have whole: "run_plan True ?tmp (staging path info @ [(\<lambda>w. SysRename ?tmp path, FailedRename)]) w
                 = (Some e, w')"
    using run by (simp add: migrateFile_run_plan plan_def)
  have "r1 \<noteq> None"
  proof
    assume "r1 = None"
    then have "run_plan False ?tmp [(\<lambda>w. SysRename ?tmp path, FailedRename)] w1 = (Some e, w')"
      using whole st by (simp add: run_plan_append staging_nonempty)
    then have "\<exists>err. e = FailedRename err"
      by (auto split: prod.splits option.splits)
    then show False using early by auto
  qed
  then have res: "r1 = Some e" "w1 = w'"
    using whole st by (auto simp: run_plan_append)
  have same: "fs w' path = fs w path"
    using run_plan_frame[of "staging path info" path ?tmp True w] staging_targets[of _ path info]
      st res by simp
  obtain evs where evs: "history w' = history w @ evs"
    "\<forall>ev\<in>set evs. \<exists>c r s. ev = Call c r s \<and>
       (c = SysRemove ?tmp \<or> (\<exists>item\<in>set (staging path info). \<exists>w'. c = fst item w'))"
    using run_plan_history[of True ?tmp "staging path info" w] st res by auto
  have "\<forall>ev\<in>set evs. \<not> touches path ev"
  proof
    fix ev assume "ev \<in> set evs"
    then obtain c r s where c: "ev = Call c r s"
      "c = SysRemove ?tmp \<or> (\<exists>item\<in>set (staging path info). \<exists>w'. c = fst item w')"
      using evs(2) by blast
    then have "path \<notin> set (targets c)"
      using staging_targets[of _ path info] by auto
    then show "\<not> touches path ev" using c(1) by (simp add: touches_def)
  qed
  then show ?thesis using same new_events_app[OF evs(1)] by simp
qed


theorem original_untouched_witness:
  "fst (migrateFile ''/ceph/a.bin'' demo_info
          (demo_world\<lparr>faults := [Pass, Pass, Pass, Pass, FaultAfter 2 EIO]\<rparr>))
     = Some (FailedCopy EIO)
   \<and> map_option content
        (fs (snd (migrateFile ''/ceph/a.bin'' demo_info
                   (demo_world\<lparr>faults := [Pass, Pass, Pass, Pass, FaultAfter 2 EIO]\<rparr>)))
           ''/ceph/a.bin'') = Some ''data''
   \<and> map_option xattrs
        (fs (snd (migrateFile ''/ceph/a.bin'' demo_info
                   (demo_world\<lparr>faults := [Pass, Pass, Pass, Pass, FaultAfter 2 EIO]\<rparr>)))
           ''/ceph/a.bin'') = Some [XATTR_KEY \<mapsto> SRC_POOL]"
proof -
  let ?w = "demo_world\<lparr>faults := [Pass, Pass, Pass, Pass, FaultAfter 2 EIO]\<rparr>"
  have r: "fst (migrateFile ''/ceph/a.bin'' demo_info ?w) = Some (FailedCopy EIO)"
    by (simp add: run_defs demo_defs)
  then have run: "migrateFile ''/ceph/a.bin'' demo_info ?w
      = (Some (FailedCopy EIO), snd (migrateFile ''/ceph/a.bin'' demo_info ?w))"
    by (simp add: prod_eq_iff)
  have before: "fs ?w ''/ceph/a.bin'' = Some demo_inode"
    by (simp add: demo_world_def)
  from original_untouched_when_staging_fails[OF run] before r show ?thesis
    by (simp add: demo_inode_def)
qed

section \<open>Removal of the temporary file\<close>

lemma run_plan_fails_later:
  "run_plan False tmp items w = (Some e, w') \<Longrightarrow>
   \<exists>evs r s. history w' = history w @ evs @ [Call (SysRemove tmp) r s]
      \<and> (r = None \<longrightarrow> fs w' tmp = None)
      \<and> (\<exists>item\<in>set items. \<exists>err. e = snd item err)"
proof (induction items arbitrary: w)
  case Nil
  then show ?case by simp
next
  case (Cons item items)
  obtain r1 w1 where p: "perform (fst item w) w = (r1, w1)" by force
  have h1: "history w1 = history w @ [Call (fst item w) r1 (fs w)]"
    using perform_history[of "fst item w" w] p by simp
  show ?case
  proof (cases r1)
    case None
    then have "run_plan False tmp items w1 = (Some e, w')"
      using Cons.prems p by simp
    from Cons.IH[OF this] obtain evs r s where
      "history w' = history w1 @ evs @ [Call (SysRemove tmp) r s]"
      "r = None \<longrightarrow> fs w' tmp = None" "\<exists>item\<in>set items. \<exists>err. e = snd item err"
      by blast
    then have "history w' = history w @ (Call (fst item w) r1 (fs w) # evs) @ [Call (SysRemove tmp) r s]
        \<and> (r = None \<longrightarrow> fs w' tmp = None) \<and> (\<exists>it\<in>set (item # items). \<exists>err. e = snd it err)"
      using h1 by simp
    then show ?thesis by blast
  next
    case (Some err)
    then have res: "e = snd item err" "w' = snd (perform (SysRemove tmp) w1)"
      using Cons.prems p by simp_all
    have "history w' = history w @ [Call (fst item w) r1 (fs w)]
            @ [Call (SysRemove tmp) (fst (perform (SysRemove tmp) w1)) (fs w1)]"
      using res(2) h1 perform_history[of "SysRemove tmp" w1] by simp
    moreover have "fst (perform (SysRemove tmp) w1) = None \<longrightarrow> fs w' tmp = None"
      using res(2) remove_success[of tmp w1] by simp
    ultimately show ?thesis using res(1) by fastforce
  qed
qed

lemma later_steps: "item \<in> set (tl (plan path info)) \<Longrightarrow> 2 \<le> step_of (snd item err)"
  by (cases "Sys info") (auto simp: plan_def staging_def)

text \<open>
  Claim C3, amended. When the executor fails at one of the steps 2 to 7, the last thing
  it does before returning the error is a removal of the temporary path, and if that
  removal succeeds no file is left at the temporary path. When it fails at step 1 the
  failed open is the only call it makes: no removal is attempted.
\<close>

theorem removal_attempted_after_step_one:
  assumes run: "migrateFile path info w = (Some e, w')"
  shows "(step_of e = 1 \<longrightarrow>
            (\<exists>err. e = FailedCreateTemp err \<and>
               new_events w w' =
                 [Call (SysOpenFile (path @ ''.mig'') [O_CREATE, O_WRONLY] (Mode info))
                    (Some err) (fs w)]))
       \<and> (2 \<le> step_of e \<longrightarrow>
            (\<exists>evs r s. new_events w w' = evs @ [Call (SysRemove (path @ ''.mig'')) r s]
               \<and> (r = None \<longrightarrow> fs w' (path @ ''.mig'') = None)))"
proof -
  let ?tmp = "path @ ''.mig''"
  let ?c1 = "SysOpenFile ?tmp [O_CREATE, O_WRONLY] (Mode info)"
  obtain r1 w1 where p: "perform ?c1 w = (r1, w1)" by force
  have h1: "history w1 = history w @ [Call ?c1 r1 (fs w)]"
    using perform_history[of ?c1 w] p by simp
  have pl: "plan path info = (\<lambda>w. ?c1, FailedCreateTemp) # tl (plan path info)"
    by (simp add: plan_def staging_def)
  have whole: "run_plan True ?tmp ((\<lambda>w. ?c1, FailedCreateTemp) # tl (plan path info)) w = (Some e, w')"
    using run pl by (simp add: migrateFile_run_plan)
  show ?thesis
  proof (cases r1)
    case (Some err)
    then have "e = FailedCreateTemp err" "w' = w1"
      using whole p by simp_all
    then show ?thesis using h1 Some by (simp add: new_events_app)
  next
    case None
    then have "run_plan False ?tmp (tl (plan path info)) w1 = (Some e, w')"
      using whole p by simp
    from run_plan_fails_later[OF this] obtain evs r s where
      l: "history w' = history w1 @ evs @ [Call (SysRemove ?tmp) r s]"
         "r = None \<longrightarrow> fs w' ?tmp = None"
         "\<exists>item\<in>set (tl (plan path info)). \<exists>err. e = snd item err"
      by blast
    have "history w' = history w @ (Call ?c1 r1 (fs w) # evs) @ [Call (SysRemove ?tmp) r s]"
      using l(1) h1 by simp
    then have "new_events w w' = (Call ?c1 r1 (fs w) # evs) @ [Call (SysRemove ?tmp) r s]"
      by (rule new_events_app)
    moreover have "2 \<le> step_of e"
      using l(3) later_steps[of _ path info] by blast
    ultimately show ?thesis using l(2) by auto
  qed
qed

theorem removal_attempted_witness:
  "fst (migrateFile ''/ceph/a.bin'' demo_info (demo_world\<lparr>faults := [Pass, Fault EIO]\<rparr>))
     = Some (FailedSetXattr EIO)
   \<and> (2::nat) \<le> step_of (FailedSetXattr EIO)
   \<and> (\<exists>evs r s.
         new_events (demo_world\<lparr>faults := [Pass, Fault EIO]\<rparr>)
           (snd (migrateFile ''/ceph/a.bin'' demo_info (demo_world\<lparr>faults := [Pass, Fault EIO]\<rparr>)))
           = evs @ [Call (SysRemove (''/ceph/a.bin'' @ ''.mig'')) r s]
         \<and> (r = None \<longrightarrow>
              fs (snd (migrateFile ''/ceph/a.bin'' demo_info
                         (demo_world\<lparr>faults := [Pass, Fault EIO]\<rparr>)))
                (''/ceph/a.bin'' @ ''.mig'') = None))"
proof -
  let ?w = "demo_world\<lparr>faults := [Pass, Fault EIO]\<rparr>"
  have r: "fst (migrateFile ''/ceph/a.bin'' demo_info ?w) = Some (FailedSetXattr EIO)"
    by (simp add: run_defs demo_defs)
  then have run: "migrateFile ''/ceph/a.bin'' demo_info ?w
      = (Some (FailedSetXattr EIO), snd (migrateFile ''/ceph/a.bin'' demo_info ?w))"
    by (simp add: prod_eq_iff)
  from removal_attempted_after_step_one[OF run] r show ?thesis
    by simp
qed

text \<open>
  The claim as stated fails: when the creation itself fails (here with a file left at
  the temporary path that cannot be opened for writing), the executor returns at once.
  The open is the only call it made, and the file at the temporary path is still there.
\<close>

theorem no_removal_when_creation_fails:
  "fst (migrateFile ''/ceph/a.bin'' demo_info (stale_world\<lparr>faults := [Fault EACCES]\<rparr>))
     = Some (FailedCreateTemp EACCES)
   \<and> calls (history (snd (migrateFile ''/ceph/a.bin'' demo_info
                            (stale_world\<lparr>faults := [Fault EACCES]\<rparr>))))
     = [(SysOpenFile ''/ceph/a.bin.mig'' [O_CREATE, O_WRONLY] 0x1B4, Some EACCES)]
   \<and> fs (snd (migrateFile ''/ceph/a.bin'' demo_info (stale_world\<lparr>faults := [Fault EACCES]\<rparr>)))
        ''/ceph/a.bin.mig'' = Some stale_inode"
  by (simp add: run_defs demo_defs)

section \<open>The steps of the executor\<close>

subsection \<open>Successful calls\<close>

lemma perform_ok:
  "perform c w = (None, w1) \<Longrightarrow> unfaulted c w = Inr (fs w1) \<and> now w1 = Suc (now w)
     \<and> umask w1 = umask w \<and> history w1 = history w @ [Call c None (fs w)]"
  using perform_success[of c w] perform_history[of c w] perform_env[of c w] by simp

lemma create_ok:
  "perform (SysOpenFile p [O_CREATE, O_WRONLY] m) w = (None, w1) \<Longrightarrow>
   fs w1 = (case fs w p of None \<Rightarrow> (fs w)(p \<mapsto> fresh_inode m w) | Some n \<Rightarrow> fs w)"
  by (drule perform_ok) (auto split: option.splits if_splits)

lemma open_existing_ok:
  "perform (SysOpenFile p [fl] m) w = (None, w1) \<Longrightarrow> fl = O_RDONLY \<or> fl = O_WRONLY \<Longrightarrow>
   fs w1 = fs w \<and> fs w p \<noteq> None"
  by (drule perform_ok) (auto split: option.splits if_splits)

lemma setxattr_ok:
  "perform (SysSetxattr p k v) w = (None, w1) \<Longrightarrow>
   \<exists>n. fs w p = Some n \<and> (k = XATTR_KEY \<longrightarrow> content n = [])
     \<and> fs w1 = (fs w)(p \<mapsto> n\<lparr>xattrs := (xattrs n)(k \<mapsto> v)\<rparr>)"
  by (drule perform_ok) (auto split: option.splits if_splits)

lemma copy_ok:
  "perform (SysCopy dst src) w = (None, w1) \<Longrightarrow>
   \<exists>s d. fs w src = Some s \<and> \<not> isdir s \<and> fs w dst = Some d \<and>
     fs w1 = (fs w)(dst \<mapsto> d\<lparr>content := overwrite (content d) (content s), mtime := now w\<rparr>)"
  by (drule perform_ok) (auto split: option.splits if_splits)

lemma chmod_ok:
  "perform (SysChmod p m) w = (None, w1) \<Longrightarrow>
   \<exists>n. fs w p = Some n \<and> fs w1 = (fs w)(p \<mapsto> n\<lparr>perm := mode_bits m\<rparr>)"
  by (drule perform_ok) (auto split: option.splits)

lemma chown_ok:
  "perform (SysChown p u g) w = (None, w1) \<Longrightarrow>
   \<exists>n. fs w p = Some n \<and> fs w1 = (fs w)(p \<mapsto> n\<lparr>uid := u, gid := g\<rparr>)"
  by (drule perform_ok) (auto split: option.splits)

lemma chtimes_ok:
  "perform (SysChtimes p a m) w = (None, w1) \<Longrightarrow>
   \<exists>n. fs w p = Some n \<and> fs w1 = (fs w)(p \<mapsto> n\<lparr>atime := a, mtime := m\<rparr>)"
  by (drule perform_ok) (auto split: option.splits)

lemma rename_ok:
  "perform (SysRename old new) w = (None, w1) \<Longrightarrow>
   \<exists>n. fs w old = Some n \<and> fs w1 = (fs w)(new \<mapsto> n, old := None)"
  by (drule perform_ok) (auto split: option.splits if_splits)

lemma open_failure_frame:
  "perform (SysOpenFile p flags m) w = (Some e, w1) \<Longrightarrow> fs w1 = fs w"
  by (auto simp: perform_def effect_def split: outcome.splits sum.splits)

lemma run_plan_ok_cons:
  "run_plan first tmp (item # items) w = (None, w') \<longleftrightarrow>
     (\<exists>w1. perform (fst item w) w = (None, w1) \<and> run_plan False tmp items w1 = (None, w'))"
  by (auto split: prod.splits option.splits)

lemma run_plan_ok_append:
  "run_plan first tmp (xs @ ys) w = (None, w') \<longleftrightarrow>
     (\<exists>w1. run_plan first tmp xs w = (None, w1)
          \<and> run_plan (first \<and> xs = []) tmp ys w1 = (None, w'))"
  by (auto simp: run_plan_append split: prod.splits option.splits)

subsection \<open>The first two steps\<close>

lemma first_steps:
  assumes run: "migrateFile path info w = (r, w')"
  obtains (create_failed) err where
      "perform (SysOpenFile (path @ ''.mig'') [O_CREATE, O_WRONLY] (Mode info)) w = (Some err, w')"
      "r = Some (FailedCreateTemp err)"
  | (setxattr_failed) w1 err w2 where
      "perform (SysOpenFile (path @ ''.mig'') [O_CREATE, O_WRONLY] (Mode info)) w = (None, w1)"
      "perform (SysSetxattr (path @ ''.mig'') XATTR_KEY DST_POOL) w1 = (Some err, w2)"
      "r = Some (FailedSetXattr err)"
      "w' = snd (perform (SysRemove (path @ ''.mig'')) w2)"
  | (staged) w1 w2 where
      "perform (SysOpenFile (path @ ''.mig'') [O_CREATE, O_WRONLY] (Mode info)) w = (None, w1)"
      "perform (SysSetxattr (path @ ''.mig'') XATTR_KEY DST_POOL) w1 = (None, w2)"
      "run_plan False (path @ ''.mig'') (drop 2 (plan path info)) w2 = (r, w')"
proof -
  let ?tmp = "path @ ''.mig''"
  let ?c1 = "SysOpenFile ?tmp [O_CREATE, O_WRONLY] (Mode info)"
  let ?c2 = "SysSetxattr ?tmp XATTR_KEY DST_POOL"
  have pl: "plan path info = (\<lambda>w. ?c1, FailedCreateTemp) # (\<lambda>w. ?c2, FailedSetXattr)
              # drop 2 (plan path info)"
    by (simp add: plan_def staging_def)
  have whole: "run_plan True ?tmp ((\<lambda>w. ?c1, FailedCreateTemp) # (\<lambda>w. ?c2, FailedSetXattr)
              # drop 2 (plan path info)) w = (r, w')"
    using run pl by (simp add: migrateFile_run_plan)
  obtain r1 w1 where p1: "perform ?c1 w = (r1, w1)" by force
  show ?thesis
  proof (cases r1)
    case (Some err)
    then show ?thesis using whole p1 create_failed[of err] by simp
  next
    case None
    note n1 = this
    obtain r2 w2 where p2: "perform ?c2 w1 = (r2, w2)" by force
    show ?thesis
    proof (cases r2)
      case (Some err)
      then show ?thesis using whole p1 p2 n1 setxattr_failed[of w1 err w2] by simp
    next
      case None
      then show ?thesis using whole p1 p2 n1 staged[of w1 w2] by simp
    qed
  qed
qed

lemma rest_items:
  "item \<in> set (drop 2 (plan path info)) \<Longrightarrow>
   fst item w'' \<in> {SysOpenFile path [O_RDONLY] 0, SysOpenFile (path @ ''.mig'') [O_WRONLY] 0,
      SysCopy (path @ ''.mig'') path, SysChmod (path @ ''.mig'') (Mode info),
      SysChtimes (path @ ''.mig'') (now w'') (ModTime info), SysRename (path @ ''.mig'') path}
   \<or> (\<exists>u g. fst item w'' = SysChown (path @ ''.mig'') u g)"
  by (cases "Sys info") (auto simp: plan_def staging_def)

lemma rest_history:
  "run_plan False tmp items w2 = (r, w') \<Longrightarrow>
   \<exists>evs. history w' = history w2 @ evs
     \<and> (\<forall>ev\<in>set evs. \<exists>c r s. ev = Call c r s \<and>
           (c = SysRemove tmp \<or> (\<exists>item\<in>set items. \<exists>w''. c = fst item w'')))"
  using run_plan_history[of False tmp items w2] by simp

lemma rest_not_create:
  "run_plan False tmp (drop 2 (plan path info)) w2 = (r, w') \<Longrightarrow> r \<noteq> Some (FailedCreateTemp err)"
proof (cases r)
  case None
  then show ?thesis by simp
next
  case (Some e)
  assume "run_plan False tmp (drop 2 (plan path info)) w2 = (r, w')"
  then have "\<exists>item\<in>set (drop 2 (plan path info)). \<exists>err. e = snd item err"
    using run_plan_fails_later[of tmp "drop 2 (plan path info)" w2 e w'] Some by blast
  then have "\<exists>item\<in>set (tl (plan path info)). \<exists>err. e = snd item err"
    by (metis in_set_dropD drop_Suc Suc_1 drop_tl)
  then have "2 \<le> step_of e" using later_steps[of _ path info] by blast
  then show ?thesis using Some by auto
qed

lemma calls_event: "(c, r) \<in> set (calls evs) \<Longrightarrow> \<exists>s. Call c r s \<in> set evs"
  by (induction evs rule: calls.induct) auto


section \<open>Creation of the temporary file\<close>

text \<open>
  Claim C4, amended. Step 1 opens the temporary sibling path write-only, creating it
  when it is missing, with the mode of the snapshot as creation mode; the call is made
  on the file system as it was before the invocation. The executor returns the create
  error exactly when that call fails, and then it has done nothing else. When the call
  succeeds and no file was at the temporary path, the next call sees a new file there
  that is empty and whose permission bits are the snapshot's bits masked by the umask.
  When a file was already there, the next call sees the file system unchanged: the
  file keeps its content and its mode. An existing file that is not a directory is no
  collision: unless the schedule injects a fault, the call succeeds.
\<close>

theorem temp_file_opened_not_exclusively:
  assumes run: "migrateFile path info w = (r, w')"
  shows "\<exists>res rest.
           new_events w w'
             = Call (SysOpenFile (path @ ''.mig'') [O_CREATE, O_WRONLY] (Mode info)) res (fs w) # rest
         \<and> (\<forall>err. r = Some (FailedCreateTemp err) \<longleftrightarrow> res = Some err)
         \<and> (res \<noteq> None \<longrightarrow> rest = [] \<and> fs w' = fs w)
         \<and> (res = None \<longrightarrow>
              (\<exists>c2 r2 s2 rest2. rest = Call c2 r2 s2 # rest2
                 \<and> (fs w (path @ ''.mig'') = None \<longrightarrow>
                      s2 = (fs w)(path @ ''.mig'' \<mapsto> fresh_inode (Mode info) w)
                      \<and> content (fresh_inode (Mode info) w) = []
                      \<and> perm (fresh_inode (Mode info) w) = mode_bits (Mode info) AND NOT (umask w))
                 \<and> (fs w (path @ ''.mig'') \<noteq> None \<longrightarrow> s2 = fs w)))
         \<and> (next_outcome w = Pass \<and> (\<forall>n. fs w (path @ ''.mig'') = Some n \<longrightarrow> \<not> isdir n)
              \<longrightarrow> res = None)"
proof -
  let ?tmp = "path @ ''.mig''"
  let ?c1 = "SysOpenFile ?tmp [O_CREATE, O_WRONLY] (Mode info)"
  let ?c2 = "SysSetxattr ?tmp XATTR_KEY DST_POOL"
  have passes: "next_outcome w = Pass \<and> (\<forall>n. fs w ?tmp = Some n \<longrightarrow> \<not> isdir n)
      \<longrightarrow> fst (perform ?c1 w) = None"
    by (auto simp: perform_def effect_def split: option.splits)
  from run show ?thesis
  proof (cases rule: first_steps)
    case (create_failed err)
    have "history w' = history w @ [Call ?c1 (Some err) (fs w)]"
      using perform_history[of ?c1 w] create_failed(1) by simp
    then have "new_events w w' = [Call ?c1 (Some err) (fs w)]"
      by (rule new_events_app)
    moreover have "fs w' = fs w"
      using open_failure_frame[OF create_failed(1)] .
    ultimately show ?thesis
      using create_failed passes by auto
  next
    case (setxattr_failed w1 err w2)
    have h: "history w' = history w @ [Call ?c1 None (fs w), Call ?c2 (Some err) (fs w1),
        Call (SysRemove ?tmp) (fst (perform (SysRemove ?tmp) w2)) (fs w2)]"
      using perform_history[of ?c1 w] perform_history[of ?c2 w1]
        perform_history[of "SysRemove ?tmp" w2] setxattr_failed by simp
    have "new_events w w' = [Call ?c1 None (fs w), Call ?c2 (Some err) (fs w1),
        Call (SysRemove ?tmp) (fst (perform (SysRemove ?tmp) w2)) (fs w2)]"
      using h by (rule new_events_app)
    then show ?thesis
      using setxattr_failed(3) create_ok[OF setxattr_failed(1)]
      by (auto simp: fresh_inode_def)
  next
    case (staged w1 w2)
    obtain evs where "history w' = history w2 @ evs"
      using rest_history[OF staged(3)] by blast
    then have "history w' = history w @ (Call ?c1 None (fs w) # Call ?c2 None (fs w1) # evs)"
      using perform_history[of ?c1 w] perform_history[of ?c2 w1] staged(1,2) by simp
    then have "new_events w w' = Call ?c1 None (fs w) # Call ?c2 None (fs w1) # evs"
      by (rule new_events_app)
    then show ?thesis
      using rest_not_create[OF staged(3)] create_ok[OF staged(1)]
      by (auto simp: fresh_inode_def)
  qed
qed

theorem temp_file_opened_witness:
  "next_outcome demo_world = Pass
   \<and> fs demo_world (''/ceph/a.bin'' @ ''.mig'') = None
   \<and> (\<exists>c2 r2 rest2.
         new_events demo_world (snd (migrateFile ''/ceph/a.bin'' demo_info demo_world))
           = Call (SysOpenFile (''/ceph/a.bin'' @ ''.mig'') [O_CREATE, O_WRONLY] (Mode demo_info))
               None (fs demo_world)
             # Call c2 r2 ((fs demo_world)(''/ceph/a.bin'' @ ''.mig''
                             \<mapsto> fresh_inode (Mode demo_info) demo_world))
             # rest2)
   \<and> perm (fresh_inode (Mode demo_info) demo_world) = mode_bits (Mode demo_info) AND NOT (umask demo_world)"
proof -
  have run: "migrateFile ''/ceph/a.bin'' demo_info demo_world
      = (fst (migrateFile ''/ceph/a.bin'' demo_info demo_world),
         snd (migrateFile ''/ceph/a.bin'' demo_info demo_world))"
    by simp
  have a: "next_outcome demo_world = Pass" "fs demo_world (''/ceph/a.bin'' @ ''.mig'') = None"
    by (simp_all add: next_outcome_def demo_world_def)
  from temp_file_opened_not_exclusively[OF run] a show ?thesis
    by auto
qed


text \<open>
  The claim as stated fails at a path collision: with a file at the temporary path, step
  1 succeeds and leaves the file's content in place, so that the run below fails only
  at step 2 (on a file system that refuses the attribute on a file with data) and then
  removes the file it found. And where step 1 does create the file, its permission
  bits are the snapshot's masked by the umask: \<open>0664\<close> under the umask \<open>022\<close> gives
  \<open>0644\<close>.
\<close>

theorem collision_is_no_create_error:
  "fs stale_world ''/ceph/a.bin.mig'' = Some stale_inode
   \<and> fst (migrateFile ''/ceph/a.bin'' demo_info (stale_world\<lparr>faults := [Pass, Fault ENOTEMPTY]\<rparr>))
       = Some (FailedSetXattr ENOTEMPTY)
   \<and> calls (history (snd (migrateFile ''/ceph/a.bin'' demo_info
                            (stale_world\<lparr>faults := [Pass, Fault ENOTEMPTY]\<rparr>))))
       = [(SysOpenFile ''/ceph/a.bin.mig'' [O_CREATE, O_WRONLY] 0x1B4, None),
          (SysSetxattr ''/ceph/a.bin.mig'' XATTR_KEY DST_POOL, Some ENOTEMPTY),
          (SysRemove ''/ceph/a.bin.mig'', None)]
   \<and> map_option content
        (seen_at (history (snd (migrateFile ''/ceph/a.bin'' demo_info
                               (stale_world\<lparr>faults := [Pass, Fault ENOTEMPTY]\<rparr>))) ! 1)
           ''/ceph/a.bin.mig'') = Some ''stale bytes''
   \<and> Mode demo_info = 0x1B4
   \<and> map_option perm
        (seen_at (history (snd (migrateFile ''/ceph/a.bin'' demo_info demo_world)) ! 1)
           ''/ceph/a.bin.mig'') = Some 0x1A4"
  by (simp add: run_defs demo_defs)


section \<open>The attribute is set before any data is copied\<close>

lemma rest_copy_snapshot:
  assumes run: "run_plan False (path @ ''.mig'') (drop 2 (plan path info)) w2 = (r, w')"
  shows "\<exists>evs. history w' = history w2 @ evs
       \<and> (\<forall>c rc sc. Call c rc sc \<in> set evs \<longrightarrow>
             c \<noteq> SysSetxattr (path @ ''.mig'') XATTR_KEY DST_POOL
             \<and> (\<forall>dst src. c = SysCopy dst src \<longrightarrow>
                   dst = path @ ''.mig'' \<and> src = path \<and> sc = fs w2))"
proof -
  let ?tmp = "path @ ''.mig''"
  let ?c3 = "SysOpenFile path [O_RDONLY] 0"
  let ?c4 = "SysOpenFile ?tmp [O_WRONLY] 0"
  let ?c5 = "SysCopy ?tmp path"
  let ?rm = "SysRemove ?tmp"
  let ?tail = "drop 5 (plan path info)"
  let ?ok = "\<lambda>evs. \<forall>c rc sc. Call c rc sc \<in> set evs \<longrightarrow>
             c \<noteq> SysSetxattr ?tmp XATTR_KEY DST_POOL
             \<and> (\<forall>dst src. c = SysCopy dst src \<longrightarrow> dst = ?tmp \<and> src = path \<and> sc = fs w2)"
  have pl: "drop 2 (plan path info)
      = (\<lambda>w. ?c3, FailedOpenSource) # (\<lambda>w. ?c4, FailedOpenTemp) # (\<lambda>w. ?c5, FailedCopy) # ?tail"
    by (simp add: plan_def staging_def)
  have tail: "item \<in> set ?tail \<Longrightarrow>
      fst item w'' \<noteq> SysSetxattr ?tmp XATTR_KEY DST_POOL \<and> (\<forall>dst src. fst item w'' \<noteq> SysCopy dst src)"
    for item w''
    by (cases "Sys info") (auto simp: plan_def staging_def)
  from run have whole: "run_plan False ?tmp
      ((\<lambda>w. ?c3, FailedOpenSource) # (\<lambda>w. ?c4, FailedOpenTemp) # (\<lambda>w. ?c5, FailedCopy) # ?tail) w2
        = (r, w')"
    by (simp only: pl)
  obtain r3 w3 where p3: "perform ?c3 w2 = (r3, w3)" by force
  have h3: "history w3 = history w2 @ [Call ?c3 r3 (fs w2)]"
    using perform_history[of ?c3 w2] p3 by simp
  have f3: "fs w3 = fs w2"
    using perform_readonly[of ?c3 w2] p3 by simp
  show ?thesis
  proof (cases r3)
    case (Some e)
    then have "w' = snd (perform ?rm w3)"
      using whole p3 by simp
    then have h: "history w' = history w2 @ [Call ?c3 r3 (fs w2), Call ?rm (fst (perform ?rm w3)) (fs w3)]"
      using h3 perform_history[of ?rm w3] by simp
    have "?ok [Call ?c3 r3 (fs w2), Call ?rm (fst (perform ?rm w3)) (fs w3)]"
      by auto
    with h show ?thesis by blast
  next
    case None
    note n3 = this
    obtain r4 w4 where p4: "perform ?c4 w3 = (r4, w4)" by force
    have h4: "history w4 = history w3 @ [Call ?c4 r4 (fs w3)]"
      using perform_history[of ?c4 w3] p4 by simp
    have f4: "fs w4 = fs w2"
      using perform_readonly[of ?c4 w3] p4 f3 by simp
    show ?thesis
    proof (cases r4)
      case (Some e)
      then have "w' = snd (perform ?rm w4)"
        using whole p3 n3 p4 by simp
      then have h: "history w' = history w2 @ [Call ?c3 r3 (fs w2), Call ?c4 r4 (fs w3),
          Call ?rm (fst (perform ?rm w4)) (fs w4)]"
        using h3 h4 perform_history[of ?rm w4] by simp
      have "?ok [Call ?c3 r3 (fs w2), Call ?c4 r4 (fs w3), Call ?rm (fst (perform ?rm w4)) (fs w4)]"
        by auto
      with h show ?thesis by blast
    next
      case None
      note n4 = this
      obtain r5 w5 where p5: "perform ?c5 w4 = (r5, w5)" by force
      have h5: "history w5 = history w2 @ [Call ?c3 r3 (fs w2), Call ?c4 r4 (fs w3), Call ?c5 r5 (fs w2)]"
        using perform_history[of ?c5 w4] p5 h3 h4 f4 by simp
      show ?thesis
      proof (cases r5)
        case (Some e)
        then have "w' = snd (perform ?rm w5)"
          using whole p3 n3 p4 n4 p5 by simp
        then have h: "history w' = history w2 @ [Call ?c3 r3 (fs w2), Call ?c4 r4 (fs w3),
            Call ?c5 r5 (fs w2), Call ?rm (fst (perform ?rm w5)) (fs w5)]"
          using h5 perform_history[of ?rm w5] by simp
        have "?ok [Call ?c3 r3 (fs w2), Call ?c4 r4 (fs w3),
            Call ?c5 r5 (fs w2), Call ?rm (fst (perform ?rm w5)) (fs w5)]"
          by auto
        with h show ?thesis by blast
      next
        case None
        then have "run_plan False ?tmp ?tail w5 = (r, w')"
          using whole p3 n3 p4 n4 p5 by simp
        from rest_history[OF this] obtain evs where
          evs: "history w' = history w5 @ evs"
            "\<forall>ev\<in>set evs. \<exists>c r s. ev = Call c r s \<and>
               (c = ?rm \<or> (\<exists>item\<in>set ?tail. \<exists>w''. c = fst item w''))"
          by blast
        have later: "?ok evs"
        proof (intro allI impI)
          fix c rc sc
          assume "Call c rc sc \<in> set evs"
          then have "c = ?rm \<or> (\<exists>item\<in>set ?tail. \<exists>w''. c = fst item w'')"
            using evs(2) by fastforce
          then show "c \<noteq> SysSetxattr ?tmp XATTR_KEY DST_POOL
             \<and> (\<forall>dst src. c = SysCopy dst src \<longrightarrow> dst = ?tmp \<and> src = path \<and> sc = fs w2)"
          proof
            assume "c = ?rm"
            then show ?thesis by simp
          next
            assume "\<exists>item\<in>set ?tail. \<exists>w''. c = fst item w''"
            then obtain item w'' where "item \<in> set ?tail" "c = fst item w''"
              by blast
            then show ?thesis using tail[of item w''] by simp
          qed
        qed
        have h: "history w' = history w2 @ ([Call ?c3 r3 (fs w2), Call ?c4 r4 (fs w3),
            Call ?c5 r5 (fs w2)] @ evs)"
          using evs(1) h5 by simp
        have "?ok ([Call ?c3 r3 (fs w2), Call ?c4 r4 (fs w3), Call ?c5 r5 (fs w2)] @ evs)"
        proof (intro allI impI)
          fix c rc sc
          assume "Call c rc sc \<in> set ([Call ?c3 r3 (fs w2), Call ?c4 r4 (fs w3),
              Call ?c5 r5 (fs w2)] @ evs)"
          then consider "c = ?c3" | "c = ?c4" | "c = ?c5 \<and> sc = fs w2" | "Call c rc sc \<in> set evs"
            by auto
          then show "c \<noteq> SysSetxattr ?tmp XATTR_KEY DST_POOL
             \<and> (\<forall>dst src. c = SysCopy dst src \<longrightarrow> dst = ?tmp \<and> src = path \<and> sc = fs w2)"
          proof cases
            case 1
            then show ?thesis by simp
          next
            case 2
            then show ?thesis by simp
          next
            case 3
            then show ?thesis by simp
          next
            case 4
            then show ?thesis using later by blast
          qed
        qed
        with h show ?thesis by blast
      qed
    qed
  qed
qed

text \<open>
  Claim C2. In every execution of the executor, either the open of step 1 fails and is
  the only call, or the attribute-set call on the temporary file is the second call,
  made right after that open. Whenever the attribute-set call succeeds, the temporary
  file is empty at that moment, and the call is never repeated. Every data transfer
  comes later, in a run where the attribute-set call has completed successfully; it
  copies from the original path into the temporary path, and when it starts the
  temporary file is still empty and already carries the destination pool. So no byte
  is copied into the temporary file before the attribute is set.
\<close>

theorem attribute_set_on_empty_file_before_copy:
  assumes run: "migrateFile path info w = (r, w')"
  shows "(\<exists>err. r = Some (FailedCreateTemp err)
            \<and> new_events w w'
                = [Call (SysOpenFile (path @ ''.mig'') [O_CREATE, O_WRONLY] (Mode info))
                     (Some err) (fs w)])
       \<or> (\<exists>r2 s post.
            new_events w w'
              = Call (SysOpenFile (path @ ''.mig'') [O_CREATE, O_WRONLY] (Mode info)) None (fs w)
                # Call (SysSetxattr (path @ ''.mig'') XATTR_KEY DST_POOL) r2 s # post
            \<and> (r2 = None \<longrightarrow> map_option content (s (path @ ''.mig'')) = Some [])
            \<and> (\<forall>c rc sc. Call c rc sc \<in> set post \<longrightarrow>
                  c \<noteq> SysSetxattr (path @ ''.mig'') XATTR_KEY DST_POOL)
            \<and> (\<forall>dst src rc sc. Call (SysCopy dst src) rc sc \<in> set post \<longrightarrow>
                  r2 = None \<and> dst = path @ ''.mig'' \<and> src = path
                  \<and> (\<exists>n. sc (path @ ''.mig'') = Some n \<and> content n = []
                         \<and> xattrs n XATTR_KEY = Some DST_POOL)))"
proof -
  let ?tmp = "path @ ''.mig''"
  let ?c1 = "SysOpenFile ?tmp [O_CREATE, O_WRONLY] (Mode info)"
  let ?c2 = "SysSetxattr ?tmp XATTR_KEY DST_POOL"
  let ?rm = "SysRemove ?tmp"
  from run show ?thesis
  proof (cases rule: first_steps)
    case (create_failed err)
    have "history w' = history w @ [Call ?c1 (Some err) (fs w)]"
      using perform_history[of ?c1 w] create_failed(1) by simp
    then have "new_events w w' = [Call ?c1 (Some err) (fs w)]"
      by (rule new_events_app)
    then show ?thesis using create_failed(2) by simp
  next
    case (setxattr_failed w1 err w2)
    have h: "history w' = history w @ [Call ?c1 None (fs w), Call ?c2 (Some err) (fs w1),
        Call ?rm (fst (perform ?rm w2)) (fs w2)]"
      using perform_history[of ?c1 w] perform_history[of ?c2 w1]
        perform_history[of ?rm w2] setxattr_failed by simp
    have "new_events w w' = Call ?c1 None (fs w) # Call ?c2 (Some err) (fs w1)
        # [Call ?rm (fst (perform ?rm w2)) (fs w2)]"
      using h by (simp add: new_events_app)
    then show ?thesis by simp
  next
    case (staged w1 w2)
    from setxattr_ok[OF staged(2)] obtain n1 where
      n1: "fs w1 ?tmp = Some n1" "content n1 = []"
          "fs w2 = (fs w1)(?tmp \<mapsto> n1\<lparr>xattrs := (xattrs n1)(XATTR_KEY \<mapsto> DST_POOL)\<rparr>)"
      by auto
    from rest_copy_snapshot[OF staged(3)] obtain evs where
      evs: "history w' = history w2 @ evs"
        "\<forall>c rc sc. Call c rc sc \<in> set evs \<longrightarrow>
             c \<noteq> ?c2 \<and> (\<forall>dst src. c = SysCopy dst src \<longrightarrow> dst = ?tmp \<and> src = path \<and> sc = fs w2)"
      by blast
    have "history w' = history w @ (Call ?c1 None (fs w) # Call ?c2 None (fs w1) # evs)"
      using evs(1) perform_history[of ?c1 w] perform_history[of ?c2 w1] staged(1,2) by simp
    then have ne: "new_events w w' = Call ?c1 None (fs w) # Call ?c2 None (fs w1) # evs"
      by (rule new_events_app)
    have empty: "map_option content (fs w1 ?tmp) = Some []"
      using n1(1,2) by simp
    have once: "\<forall>c rc sc. Call c rc sc \<in> set evs \<longrightarrow> c \<noteq> ?c2"
      using evs(2) by blast
    have copies: "\<forall>dst src rc sc. Call (SysCopy dst src) rc sc \<in> set evs \<longrightarrow>
        None = (None :: errno option) \<and> dst = ?tmp \<and> src = path
        \<and> (\<exists>n. sc ?tmp = Some n \<and> content n = [] \<and> xattrs n XATTR_KEY = Some DST_POOL)"
    proof (intro allI impI)
      fix dst src rc sc
      assume "Call (SysCopy dst src) rc sc \<in> set evs"
      then have "dst = ?tmp \<and> src = path \<and> sc = fs w2"
        using evs(2) by blast
      then show "None = (None :: errno option) \<and> dst = ?tmp \<and> src = path
        \<and> (\<exists>n. sc ?tmp = Some n \<and> content n = [] \<and> xattrs n XATTR_KEY = Some DST_POOL)"
        using n1(2,3) by simp
    qed
    have "\<exists>r2 s post. new_events w w' = Call ?c1 None (fs w) # Call ?c2 r2 s # post
            \<and> (r2 = None \<longrightarrow> map_option content (s ?tmp) = Some [])
            \<and> (\<forall>c rc sc. Call c rc sc \<in> set post \<longrightarrow> c \<noteq> ?c2)
            \<and> (\<forall>dst src rc sc. Call (SysCopy dst src) rc sc \<in> set post \<longrightarrow>
                  r2 = None \<and> dst = ?tmp \<and> src = path
                  \<and> (\<exists>n. sc ?tmp = Some n \<and> content n = [] \<and> xattrs n XATTR_KEY = Some DST_POOL))"
      using ne empty once copies by blast
    then show ?thesis by (rule disjI2)
  qed
qed

theorem attribute_set_witness:
  "\<exists>s post sc n.
      new_events demo_world (snd (migrateFile ''/ceph/a.bin'' demo_info demo_world))
        = Call (SysOpenFile (''/ceph/a.bin'' @ ''.mig'') [O_CREATE, O_WRONLY] (Mode demo_info))
            None (fs demo_world)
          # Call (SysSetxattr (''/ceph/a.bin'' @ ''.mig'') XATTR_KEY DST_POOL) None s # post
      \<and> map_option content (s (''/ceph/a.bin'' @ ''.mig'')) = Some []
      \<and> Call (SysCopy (''/ceph/a.bin'' @ ''.mig'') ''/ceph/a.bin'') None sc \<in> set post
      \<and> sc (''/ceph/a.bin'' @ ''.mig'') = Some n \<and> content n = []
      \<and> xattrs n XATTR_KEY = Some DST_POOL"
proof -
  let ?w' = "snd (migrateFile ''/ceph/a.bin'' demo_info demo_world)"
  let ?tmp = "''/ceph/a.bin'' @ ''.mig''"
  let ?c1 = "SysOpenFile ?tmp [O_CREATE, O_WRONLY] (Mode demo_info)"
  let ?c2 = "SysSetxattr ?tmp XATTR_KEY DST_POOL"
  let ?c5 = "SysCopy ?tmp ''/ceph/a.bin''"
  have r: "fst (migrateFile ''/ceph/a.bin'' demo_info demo_world) = None"
    by (simp add: run_defs demo_defs)
  then have run: "migrateFile ''/ceph/a.bin'' demo_info demo_world = (None, ?w')"
    by (simp add: prod_eq_iff)
  have cs: "calls (new_events demo_world ?w')
      = [(?c1, None), (?c2, None), (SysOpenFile ''/ceph/a.bin'' [O_RDONLY] 0, None),
         (SysOpenFile ?tmp [O_WRONLY] 0, None), (?c5, None),
         (SysChmod ?tmp (Mode demo_info), None), (SysChtimes ?tmp 106 (ModTime demo_info), None),
         (SysRename ?tmp ''/ceph/a.bin'', None)]"
    by (simp add: run_defs demo_defs)
  from attribute_set_on_empty_file_before_copy[OF run]
  have "\<exists>r2 s post. new_events demo_world ?w' = Call ?c1 None (fs demo_world) # Call ?c2 r2 s # post
        \<and> (r2 = None \<longrightarrow> map_option content (s ?tmp) = Some [])
        \<and> (\<forall>dst src rc sc. Call (SysCopy dst src) rc sc \<in> set post \<longrightarrow>
                  r2 = None \<and> dst = ?tmp \<and> src = ''/ceph/a.bin''
                  \<and> (\<exists>n. sc ?tmp = Some n \<and> content n = [] \<and> xattrs n XATTR_KEY = Some DST_POOL))"
    by (elim disjE exE conjE) (simp, blast)
  then obtain r2 s post where
    sp: "new_events demo_world ?w' = Call ?c1 None (fs demo_world) # Call ?c2 r2 s # post"
        "r2 = None \<longrightarrow> map_option content (s ?tmp) = Some []"
        "\<forall>dst src rc sc. Call (SysCopy dst src) rc sc \<in> set post \<longrightarrow>
                  r2 = None \<and> dst = ?tmp \<and> src = ''/ceph/a.bin''
                  \<and> (\<exists>n. sc ?tmp = Some n \<and> content n = [] \<and> xattrs n XATTR_KEY = Some DST_POOL)"
    by blast
  have "(?c5, None) \<in> set (calls post)"
    using cs unfolding sp(1) by simp
  then obtain sc where sc: "Call ?c5 None sc \<in> set post"
    using calls_event by blast
  with sp(3) obtain n where
    n: "r2 = None" "sc ?tmp = Some n" "content n = []" "xattrs n XATTR_KEY = Some DST_POOL"
    by blast
  show ?thesis using sp(1,2) sc n by blast
qed

section \<open>Fidelity of a successful migration\<close>

lemma copy_phase_ok:
  assumes run: "run_plan False (path @ ''.mig'')
             [(\<lambda>w. SysOpenFile path [O_RDONLY] 0, FailedOpenSource),
              (\<lambda>w. SysOpenFile (path @ ''.mig'') [O_WRONLY] 0, FailedOpenTemp),
              (\<lambda>w. SysCopy (path @ ''.mig'') path, FailedCopy),
              (\<lambda>w. SysChmod (path @ ''.mig'') m, FailedSetPermissions)] w2 = (None, w6)"
    and tmp: "fs w2 (path @ ''.mig'') = Some n2"
  shows "\<exists>orig n6. fs w2 path = Some orig \<and> \<not> isdir orig \<and> fs w6 path = Some orig
           \<and> fs w6 (path @ ''.mig'') = Some n6
           \<and> content n6 = overwrite (content n2) (content orig)
           \<and> perm n6 = mode_bits m \<and> xattrs n6 = xattrs n2
           \<and> uid n6 = uid n2 \<and> gid n6 = gid n2"
proof -
  let ?tmp = "path @ ''.mig''"
  from run obtain w3 w4 w5 where
    c3: "perform (SysOpenFile path [O_RDONLY] 0) w2 = (None, w3)" and
    c4: "perform (SysOpenFile ?tmp [O_WRONLY] 0) w3 = (None, w4)" and
    c5: "perform (SysCopy ?tmp path) w4 = (None, w5)" and
    c6: "perform (SysChmod ?tmp m) w5 = (None, w6)"
    by (auto simp: run_plan_ok_cons simp del: run_plan.simps(2))
  have f3: "fs w3 = fs w2" using open_existing_ok[OF c3] by simp
  have f4: "fs w4 = fs w2" using open_existing_ok[OF c4] f3 by simp
  from copy_ok[OF c5] obtain s d where
    cp: "fs w4 path = Some s" "\<not> isdir s" "fs w4 ?tmp = Some d"
        "fs w5 = (fs w4)(?tmp \<mapsto> d\<lparr>content := overwrite (content d) (content s), mtime := now w4\<rparr>)"
    by blast
  have d: "d = n2" using cp(3) f4 tmp by simp
  from chmod_ok[OF c6] obtain n5 where
    cm: "fs w5 ?tmp = Some n5" "fs w6 = (fs w5)(?tmp \<mapsto> n5\<lparr>perm := mode_bits m\<rparr>)"
    by blast
  have n5: "n5 = n2\<lparr>content := overwrite (content n2) (content s), mtime := now w4\<rparr>"
    using cm(1) cp(4) d by simp
  have "fs w6 path = Some s"
    using cm(2) cp(4) cp(1) by simp
  moreover have "fs w6 ?tmp = Some (n5\<lparr>perm := mode_bits m\<rparr>)"
    using cm(2) by simp
  ultimately show ?thesis
    using cp(1,2) f4 n5 by simp
qed

lemma chown_phase_ok:
  assumes run: "run_plan False (path @ ''.mig'')
             (case Sys info of
                UnixStat st \<Rightarrow> [(\<lambda>w. SysChown (path @ ''.mig'') (Uid st) (Gid st), FailedSetOwnership)]
              | SyscallStat st \<Rightarrow> []) w6 = (None, w7)"
    and tmp: "fs w6 (path @ ''.mig'') = Some n6"
  shows "\<exists>n7. fs w7 path = fs w6 path \<and> fs w7 (path @ ''.mig'') = Some n7
           \<and> content n7 = content n6 \<and> perm n7 = perm n6 \<and> xattrs n7 = xattrs n6
           \<and> uid n7 = (case Sys info of UnixStat st \<Rightarrow> Uid st | SyscallStat st \<Rightarrow> uid n6)
           \<and> gid n7 = (case Sys info of UnixStat st \<Rightarrow> Gid st | SyscallStat st \<Rightarrow> gid n6)"
proof (cases "Sys info")
  case (SyscallStat st)
  then show ?thesis using run tmp by simp
next
  case (UnixStat st)
  then have c: "perform (SysChown (path @ ''.mig'') (Uid st) (Gid st)) w6 = (None, w7)"
    using run by (simp add: run_plan_ok_cons del: run_plan.simps(2))
  from chown_ok[OF c] tmp have "fs w7 = (fs w6)(path @ ''.mig'' \<mapsto> n6\<lparr>uid := Uid st, gid := Gid st\<rparr>)"
    by auto
  then show ?thesis using UnixStat by simp
qed

lemma rename_phase_ok:
  assumes run: "run_plan False (path @ ''.mig'')
             [(\<lambda>w. SysChtimes (path @ ''.mig'') (now w) mt, FailedSetTimestamps),
              (\<lambda>w. SysRename (path @ ''.mig'') path, FailedRename)] w7 = (None, w')"
    and tmp: "fs w7 (path @ ''.mig'') = Some n7"
  shows "\<exists>n'. fs w' path = Some n' \<and> fs w' (path @ ''.mig'') = None
           \<and> content n' = content n7 \<and> perm n' = perm n7 \<and> xattrs n' = xattrs n7
           \<and> uid n' = uid n7 \<and> gid n' = gid n7 \<and> mtime n' = mt"
proof -
  let ?tmp = "path @ ''.mig''"
  from run obtain w8 where
    c8: "perform (SysChtimes ?tmp (now w7) mt) w7 = (None, w8)" and
    c9: "perform (SysRename ?tmp path) w8 = (None, w')"
    by (auto simp: run_plan_ok_cons simp del: run_plan.simps(2))
  from chtimes_ok[OF c8] tmp have f8: "fs w8 = (fs w7)(?tmp \<mapsto> n7\<lparr>atime := now w7, mtime := mt\<rparr>)"
    by auto
  from rename_ok[OF c9] f8 have "fs w' = (fs w8)(path \<mapsto> n7\<lparr>atime := now w7, mtime := mt\<rparr>, ?tmp := None)"
    by auto
  then show ?thesis by simp
qed

lemma rest_of_plan:
  "drop 2 (plan path info) =
     [(\<lambda>w. SysOpenFile path [O_RDONLY] 0, FailedOpenSource),
      (\<lambda>w. SysOpenFile (path @ ''.mig'') [O_WRONLY] 0, FailedOpenTemp),
      (\<lambda>w. SysCopy (path @ ''.mig'') path, FailedCopy),
      (\<lambda>w. SysChmod (path @ ''.mig'') (Mode info), FailedSetPermissions)]
     @ (case Sys info of
          UnixStat st \<Rightarrow> [(\<lambda>w. SysChown (path @ ''.mig'') (Uid st) (Gid st), FailedSetOwnership)]
        | SyscallStat st \<Rightarrow> [])
     @ [(\<lambda>w. SysChtimes (path @ ''.mig'') (now w) (ModTime info), FailedSetTimestamps),
        (\<lambda>w. SysRename (path @ ''.mig'') path, FailedRename)]"
  by (simp add: plan_def staging_def)

text \<open>
  What a successful migration leaves at the original path, for every file system and
  every fault schedule: the content of the original (the temporary file was empty when
  the attribute was set), the permission bits and the modification time of the
  snapshot, and the destination pool; no file is left at the temporary path. The owner
  and the group are those of the snapshot only when its \<open>Sys\<close> value passes the type
  assertion of the executor; otherwise they are those of the temporary file, which
  belongs to the effective user and group of the process when step 1 created it.
\<close>

lemma migration_result:
  assumes run: "migrateFile path info w = (None, w')"
  shows "\<exists>orig n'. fs w path = Some orig \<and> \<not> isdir orig \<and> fs w' path = Some n'
      \<and> content n' = content orig
      \<and> perm n' = mode_bits (Mode info)
      \<and> mtime n' = ModTime info
      \<and> xattrs n' XATTR_KEY = Some DST_POOL
      \<and> fs w' (path @ ''.mig'') = None
      \<and> uid n' = (case Sys info of
                    UnixStat st \<Rightarrow> Uid st
                  | SyscallStat st \<Rightarrow>
                      (case fs w (path @ ''.mig'') of None \<Rightarrow> euid w | Some t \<Rightarrow> uid t))
      \<and> gid n' = (case Sys info of
                    UnixStat st \<Rightarrow> Gid st
                  | SyscallStat st \<Rightarrow>
                      (case fs w (path @ ''.mig'') of None \<Rightarrow> egid w | Some t \<Rightarrow> gid t))"
proof -
  let ?tmp = "path @ ''.mig''"
  from run show ?thesis
  proof (cases rule: first_steps)
    case (create_failed err)
    then show ?thesis by simp
  next
    case (setxattr_failed w1 err w2)
    then show ?thesis by simp
  next
    case (staged w1 w2)
    from setxattr_ok[OF staged(2)] obtain n1 where
      s2: "fs w1 ?tmp = Some n1" "content n1 = []"
          "fs w2 = (fs w1)(?tmp \<mapsto> n1\<lparr>xattrs := (xattrs n1)(XATTR_KEY \<mapsto> DST_POOL)\<rparr>)"
      by auto
    have own: "uid n1 = (case fs w ?tmp of None \<Rightarrow> euid w | Some t \<Rightarrow> uid t)"
        "gid n1 = (case fs w ?tmp of None \<Rightarrow> egid w | Some t \<Rightarrow> gid t)"
      using create_ok[OF staged(1)] s2(1) by (auto simp: fresh_inode_def split: option.splits)
    have p1: "fs w1 path = fs w path"
      using create_ok[OF staged(1)] by (auto split: option.splits)
    let ?n2 = "n1\<lparr>xattrs := (xattrs n1)(XATTR_KEY \<mapsto> DST_POOL)\<rparr>"
    have t2: "fs w2 ?tmp = Some ?n2" and p2: "fs w2 path = fs w path"
      using s2(3) p1 by simp_all
    from staged(3) obtain w6 w7 where
      a: "run_plan False ?tmp
             [(\<lambda>w. SysOpenFile path [O_RDONLY] 0, FailedOpenSource),
              (\<lambda>w. SysOpenFile ?tmp [O_WRONLY] 0, FailedOpenTemp),
              (\<lambda>w. SysCopy ?tmp path, FailedCopy),
              (\<lambda>w. SysChmod ?tmp (Mode info), FailedSetPermissions)] w2 = (None, w6)" and
      b: "run_plan False ?tmp
             (case Sys info of
                UnixStat st \<Rightarrow> [(\<lambda>w. SysChown ?tmp (Uid st) (Gid st), FailedSetOwnership)]
              | SyscallStat st \<Rightarrow> []) w6 = (None, w7)" and
      c: "run_plan False ?tmp
             [(\<lambda>w. SysChtimes ?tmp (now w) (ModTime info), FailedSetTimestamps),
              (\<lambda>w. SysRename ?tmp path, FailedRename)] w7 = (None, w')"
      unfolding rest_of_plan run_plan_ok_append by auto
    from copy_phase_ok[OF a t2] obtain orig n6 where
      six: "fs w2 path = Some orig" "\<not> isdir orig" "fs w6 path = Some orig" "fs w6 ?tmp = Some n6"
        "content n6 = overwrite (content ?n2) (content orig)" "perm n6 = mode_bits (Mode info)"
        "xattrs n6 = xattrs ?n2" "uid n6 = uid ?n2" "gid n6 = gid ?n2"
      by blast
    from chown_phase_ok[OF b six(4)] obtain n7 where
      seven: "fs w7 ?tmp = Some n7" "content n7 = content n6" "perm n7 = perm n6"
        "xattrs n7 = xattrs n6"
        "uid n7 = (case Sys info of UnixStat st \<Rightarrow> Uid st | SyscallStat st \<Rightarrow> uid n6)"
        "gid n7 = (case Sys info of UnixStat st \<Rightarrow> Gid st | SyscallStat st \<Rightarrow> gid n6)"
      by blast
    from rename_phase_ok[OF c seven(1)] obtain n' where
      fin: "fs w' path = Some n'" "fs w' ?tmp = None" "content n' = content n7" "perm n' = perm n7"
        "xattrs n' = xattrs n7" "uid n' = uid n7" "gid n' = gid n7" "mtime n' = ModTime info"
      by blast
    have cont: "content n' = content orig"
      using fin(3) seven(2) six(5) s2(2) by (simp add: overwrite_def)
    have attr: "xattrs n' XATTR_KEY = Some DST_POOL"
      using fin(5) seven(4) six(7) by simp
    have u: "uid n' = (case Sys info of UnixStat st \<Rightarrow> Uid st
                | SyscallStat st \<Rightarrow> (case fs w ?tmp of None \<Rightarrow> euid w | Some t \<Rightarrow> uid t))"
      using fin(6) seven(5) six(8) own(1) by (simp split: sysval.splits)
    have g: "gid n' = (case Sys info of UnixStat st \<Rightarrow> Gid st
                | SyscallStat st \<Rightarrow> (case fs w ?tmp of None \<Rightarrow> egid w | Some t \<Rightarrow> gid t))"
      using fin(7) seven(6) six(9) own(2) by (simp split: sysval.splits)
    have pm: "perm n' = mode_bits (Mode info)"
      using fin(4) seven(3) six(6) by simp
    show ?thesis
      using six(1,2) p2 fin(1,2,8) cont attr u g pm by simp
  qed
qed

section \<open>The checks of the Run Coordinator\<close>

lemma perform_pair:
  "perform c w = (r, w1) \<Longrightarrow> history w1 = history w @ [Call c r (fs w)]"
  using perform_history[of c w] by simp

lemma perform_readonly_pair:
  "perform c w = (r, w1) \<Longrightarrow> targets c = [] \<Longrightarrow> fs w1 = fs w"
  using perform_readonly[of c w] by simp

lemma os_Stat_effect:
  assumes "os_Stat p w = (res, w1)"
  shows "fs w1 = fs w \<and> (\<exists>r. history w1 = history w @ [Call (SysStat p) r (fs w)]
            \<and> (r = None \<longleftrightarrow> (\<exists>info. res = Inr info)))
       \<and> (\<forall>info. res = Inr info \<longrightarrow> (\<exists>n. fs w p = Some n \<and> info = fileinfo_of n))"
proof -
  obtain r w' where p: "perform (SysStat p) w = (r, w')" by force
  have ok: "r = None \<Longrightarrow> fs w p \<noteq> None"
    using perform_success[of "SysStat p" w] p by (auto split: option.splits)
  have "w1 = w'" using assms p by (auto simp: os_Stat_def split: option.splits)
  moreover have "r = None \<longleftrightarrow> (\<exists>info. res = Inr info)"
    using assms p ok by (auto simp: os_Stat_def split: option.splits)
  moreover have "\<forall>info. res = Inr info \<longrightarrow> (\<exists>n. fs w p = Some n \<and> info = fileinfo_of n)"
    using assms p by (auto simp: os_Stat_def split: option.splits)
  ultimately show ?thesis
    using perform_pair[OF p] perform_readonly_pair[OF p] by auto
qed

lemma unix_Getxattr_effect:
  assumes "unix_Getxattr p k cap w = (res, w1)"
  shows "fs w1 = fs w \<and> (\<exists>r. history w1 = history w @ [Call (SysGetxattr p k cap) r (fs w)])
       \<and> (\<forall>sz v. res = Inr (sz, v) \<longrightarrow> sz = length v \<and> (\<exists>n. fs w p = Some n \<and> xattrs n k = Some v))"
proof -
  obtain r w' where p: "perform (SysGetxattr p k cap) w = (r, w')" by force
  have "w1 = w'" using assms p by (auto simp: unix_Getxattr_def split: option.splits)
  moreover have "\<forall>sz v. res = Inr (sz, v) \<longrightarrow> sz = length v \<and> (\<exists>n. fs w p = Some n \<and> xattrs n k = Some v)"
    using assms p by (auto simp: unix_Getxattr_def split: option.splits)
  ultimately show ?thesis
    using perform_pair[OF p] perform_readonly_pair[OF p] by auto
qed

lemma getXattr_effect:
  assumes "getXattr p w = ((v, xerr), w2)"
  shows "fs w2 = fs w
       \<and> (\<exists>evs. history w2 = history w @ evs \<and> (\<forall>ev\<in>set evs. inspects ev))
       \<and> (xerr = None \<longrightarrow> (\<exists>n. fs w p = Some n \<and> xattrs n XATTR_KEY = Some v))"
proof -
  obtain res1 w1 where g1: "unix_Getxattr p XATTR_KEY None w = (res1, w1)" by force
  note e1 = unix_Getxattr_effect[OF g1]
  from e1 obtain r1 where h1: "history w1 = history w @ [Call (SysGetxattr p XATTR_KEY None) r1 (fs w)]"
    by blast
  show ?thesis
  proof (cases res1)
    case (Inl err)
    then have "w2 = w1" "xerr = Some err"
      using assms g1 by (simp_all add: getXattr_def)
    then show ?thesis using e1 h1 by (auto simp: inspects_def)
  next
    case (Inr szv)
    obtain sz v0 where szv: "szv = (sz, v0)" by force
    obtain res2 w2' where g2: "unix_Getxattr p XATTR_KEY (Some sz) w1 = (res2, w2')" by force
    note e2 = unix_Getxattr_effect[OF g2]
    from e2 obtain r2 where
      h2: "history w2' = history w1 @ [Call (SysGetxattr p XATTR_KEY (Some sz)) r2 (fs w1)]"
      by blast
    have w2: "w2 = w2'"
      using assms g1 g2 Inr szv by (auto simp: getXattr_def split: sum.splits)
    have hist: "history w2 = history w @ [Call (SysGetxattr p XATTR_KEY None) r1 (fs w),
        Call (SysGetxattr p XATTR_KEY (Some sz)) r2 (fs w1)]"
      using w2 h1 h2 by simp
    have val: "xerr = None \<longrightarrow> (\<exists>n. fs w p = Some n \<and> xattrs n XATTR_KEY = Some v)"
    proof
      assume "xerr = None"
      then obtain n2 v2 where r2: "res2 = Inr (n2, v2)" "v = v2 @ replicate (sz - n2) (CHR 0x00)"
        using assms g1 g2 Inr szv by (auto simp: getXattr_def split: sum.splits)
      from e1 Inr szv obtain n where n: "sz = length v0" "fs w p = Some n" "xattrs n XATTR_KEY = Some v0"
        by auto
      from e2 r2(1) obtain n' where n': "n2 = length v2" "fs w1 p = Some n'" "xattrs n' XATTR_KEY = Some v2"
        by auto
      have "fs w1 = fs w" using e1 by simp
      then have "v2 = v0" using n n' by simp
      then have "v = v0" using r2(2) n(1) n'(1) by simp
      then show "\<exists>n. fs w p = Some n \<and> xattrs n XATTR_KEY = Some v" using n by simp
    qed
    have "fs w2 = fs w" using w2 e1 e2 by simp
    moreover have "\<exists>evs. history w2 = history w @ evs \<and> (\<forall>ev\<in>set evs. inspects ev)"
      using hist by (auto simp: inspects_def)
    ultimately show ?thesis using val by simp
  qed
qed

lemma report_effect [simp]:
  "fs (report m w) = fs w" "history (report m w) = history w @ [Report m]"
  "fs (report_if b m w) = fs w"
  "history (report_if b m w) = history w @ (if b then [Report m] else [])"
  by (simp_all add: report_def report_if_def)


lemma new_events_same [simp]: "new_events w w = []"
  by (simp add: new_events_def)

lemma inspects_simps [simp]:
  "inspects (Report m)" "inspects (Call c r s) \<longleftrightarrow> targets c = []"
  by (simp_all add: inspects_def)

lemmas coord_defs = demo_join_def demo_cfg_def dir_world_def done_world_def done_inode_def
  os_Stat_def getXattr_def unix_Getxattr_def process_line_def report_def report_if_def no_counts_def

lemmas main_defs = main_def analyzePoolScan_def bufio_Scan_def ScanLines_def dropCR_def
  count_line_def lookup0_def Fields_def byte_def scan_world_def scan_inode_def SCAN_FILE_def

lemmas eval_defs = main_defs coord_defs demo_defs run_defs faulty_world_def

lemma os_Open_frame: "os_Open p w = (r, w1) \<Longrightarrow> fs w1 = fs w"
  using perform_readonly[of "SysOpenFile p [O_RDONLY] 0" w] by (simp add: os_Open_def os_OpenFile_def)

lemma os_Stat_frame: "os_Stat p w = (r, w1) \<Longrightarrow> fs w1 = fs w"
  using perform_readonly[of "SysStat p" w]
  by (auto simp: os_Stat_def split: prod.splits option.splits)

lemma demo_record: "Fields ''cephfs.ibu.data_ec42 a.bin'' = SRC_POOL # ''a.bin'' # []"
  by (simp add: Fields_def SRC_POOL_def byte_def)

lemma demo_dir_record: "Fields ''cephfs.ibu.data_ec42 sub'' = SRC_POOL # ''sub'' # []"
  by (simp add: Fields_def SRC_POOL_def byte_def)


subsection \<open>Ownership\<close>

text \<open>
  The snapshot that the coordinator hands to the executor comes from \<^verbatim>\<open>os.Stat\<close>, whose
  \<open>Sys\<close> value never passes the type assertion: the executor then makes no
  \<^verbatim>\<open>chown\<close> call at all.
\<close>

lemma snapshot_is_syscall_stat:
  "os_Stat p w = (Inr info, w1) \<Longrightarrow> \<exists>n. fs w p = Some n \<and> Sys info = SyscallStat (Stat_t (uid n) (gid n))"
  using os_Stat_effect[of p w "Inr info" w1] by (auto simp: fileinfo_of_def)

lemma no_chown_after_stat:
  assumes st: "os_Stat p w0 = (Inr info, w1)"
      and run: "migrateFile path info w = (r, w')"
  shows "Call (SysChown q u g) rc sc \<notin> set (new_events w w')"
proof -
  from snapshot_is_syscall_stat[OF st] obtain st0 where sys: "Sys info = SyscallStat st0"
    by blast
  have items: "item \<in> set (plan path info) \<Longrightarrow> fst item w'' \<noteq> SysChown q u g" for item w''
    using sys by (auto simp: plan_def staging_def)
  obtain evs where evs: "history w' = history w @ evs"
    "\<forall>ev\<in>set evs. \<exists>c r s. ev = Call c r s \<and>
       (c = SysRemove (path @ ''.mig'') \<or> (\<exists>item\<in>set (plan path info). \<exists>w''. c = fst item w''))"
    using run_plan_history[of True "path @ ''.mig''" "plan path info" w] run
    by (auto simp: migrateFile_run_plan)
  have "Call (SysChown q u g) rc sc \<notin> set evs"
  proof
    assume "Call (SysChown q u g) rc sc \<in> set evs"
    then have "\<exists>item\<in>set (plan path info). \<exists>w''. SysChown q u g = fst item w''"
      using evs(2) by fastforce
    then show False using items by metis
  qed
  then show ?thesis using new_events_app[OF evs(1)] by simp
qed

text \<open>
  Claim C5 states that after a successful migration the content, the permission bits,
  the owner, the group and the modification time at the original path are those of
  before. The code departs from it for the owner and the group. A file of user and
  group 1000 is migrated by the tool running as user and group 0: the snapshot is the
  one \<^verbatim>\<open>os.Stat\<close> returns, the executor succeeds, no \<^verbatim>\<open>chown\<close> is among its calls, and
  the file ends up owned by user and group 0, with its content kept.
\<close>

theorem ownership_not_restored:
  "map_option uid (fs root_world ''/ceph/a.bin'') = Some 1000
   \<and> map_option gid (fs root_world ''/ceph/a.bin'') = Some 1000
   \<and> euid root_world = 0 \<and> egid root_world = 0
   \<and> fst (os_Stat ''/ceph/a.bin'' root_world) = Inr demo_info
   \<and> Sys demo_info = SyscallStat (Stat_t 1000 1000)
   \<and> fst (migrateFile ''/ceph/a.bin'' demo_info root_world) = None
   \<and> calls (history (snd (migrateFile ''/ceph/a.bin'' demo_info root_world)))
       = [(SysOpenFile ''/ceph/a.bin.mig'' [O_CREATE, O_WRONLY] 0x1B4, None),
          (SysSetxattr ''/ceph/a.bin.mig'' XATTR_KEY DST_POOL, None),
          (SysOpenFile ''/ceph/a.bin'' [O_RDONLY] 0, None),
          (SysOpenFile ''/ceph/a.bin.mig'' [O_WRONLY] 0, None),
          (SysCopy ''/ceph/a.bin.mig'' ''/ceph/a.bin'', None),
          (SysChmod ''/ceph/a.bin.mig'' 0x1B4, None),
          (SysChtimes ''/ceph/a.bin.mig'' 106 5, None),
          (SysRename ''/ceph/a.bin.mig'' ''/ceph/a.bin'', None)]
   \<and> map_option uid (fs (snd (migrateFile ''/ceph/a.bin'' demo_info root_world)) ''/ceph/a.bin'')
       = Some 0
   \<and> map_option gid (fs (snd (migrateFile ''/ceph/a.bin'' demo_info root_world)) ''/ceph/a.bin'')
       = Some 0
   \<and> map_option content (fs (snd (migrateFile ''/ceph/a.bin'' demo_info root_world)) ''/ceph/a.bin'')
       = Some ''data''"
  by (simp add: run_defs coord_defs demo_defs root_world_def)

text \<open>
  The same run seen from the loop of \<^verbatim>\<open>main\<close>: the record is counted as migrated.
\<close>

lemma record_migrated_by_root:
  "map_option uid (fs root_world ''/ceph/a.bin'') = Some 1000
   \<and> map_option gid (fs root_world ''/ceph/a.bin'') = Some 1000
   \<and> euid root_world = 0 \<and> egid root_world = 0
   \<and> fst (os_Stat ''/ceph/a.bin'' root_world) = Inr demo_info
   \<and> Sys demo_info = SyscallStat (Stat_t 1000 1000)
   \<and> fst (process_line demo_join demo_cfg (no_counts, root_world) ''cephfs.ibu.data_ec42 a.bin'')
       = no_counts\<lparr>lineCount := 1, total := 1, migrated := 1, bytesTotal := 4\<rparr>
   \<and> calls (history (snd (process_line demo_join demo_cfg (no_counts, root_world)
                             ''cephfs.ibu.data_ec42 a.bin'')))
       = [(SysStat ''/ceph/a.bin'', None),
          (SysGetxattr ''/ceph/a.bin'' XATTR_KEY None, None),
          (SysGetxattr ''/ceph/a.bin'' XATTR_KEY (Some 20), None),
          (SysOpenFile ''/ceph/a.bin.mig'' [O_CREATE, O_WRONLY] 0x1B4, None),
          (SysSetxattr ''/ceph/a.bin.mig'' XATTR_KEY DST_POOL, None),
          (SysOpenFile ''/ceph/a.bin'' [O_RDONLY] 0, None),
          (SysOpenFile ''/ceph/a.bin.mig'' [O_WRONLY] 0, None),
          (SysCopy ''/ceph/a.bin.mig'' ''/ceph/a.bin'', None),
          (SysChmod ''/ceph/a.bin.mig'' 0x1B4, None),
          (SysChtimes ''/ceph/a.bin.mig'' 109 5, None),
          (SysRename ''/ceph/a.bin.mig'' ''/ceph/a.bin'', None)]
   \<and> map_option uid (fs (snd (process_line demo_join demo_cfg (no_counts, root_world)
                                 ''cephfs.ibu.data_ec42 a.bin'')) ''/ceph/a.bin'') = Some 0
   \<and> map_option gid (fs (snd (process_line demo_join demo_cfg (no_counts, root_world)
                                 ''cephfs.ibu.data_ec42 a.bin'')) ''/ceph/a.bin'') = Some 0
   \<and> map_option content (fs (snd (process_line demo_join demo_cfg (no_counts, root_world)
                                 ''cephfs.ibu.data_ec42 a.bin'')) ''/ceph/a.bin'') = Some ''data''"
  by (simp add: demo_record run_defs coord_defs demo_defs root_world_def)


subsection \<open>Directories\<close>

text \<open>
  Claim C10. A record of the source pool whose path \<^verbatim>\<open>os.Stat\<close> reports as a directory
  (the path is a directory in the file system) is skipped in silence: the result of the
  loop body has the line and record counters advanced and nothing else, the migrated
  and the error counters are unchanged, and the \<^verbatim>\<open>stat\<close> call is the only event of the
  step, with no attribute read, no call of the executor and no report.
\<close>

theorem directory_record_skipped:
  assumes rec: "Fields line = SRC_POOL # rel # others"
      and st: "os_Stat (join (cephRoot cfg) rel) w = (Inr info, w1)"
      and dir: "IsDir info"
  shows "process_line join cfg (c, w) line
           = (c\<lparr>lineCount := lineCount c + 1, total := total c + 1\<rparr>, w1)
       \<and> migrated (fst (process_line join cfg (c, w) line)) = migrated c
       \<and> errors (fst (process_line join cfg (c, w) line)) = errors c
       \<and> new_events w w1 = [Call (SysStat (join (cephRoot cfg) rel)) None (fs w)]
       \<and> fs w1 = fs w
       \<and> (\<exists>n. fs w (join (cephRoot cfg) rel) = Some n \<and> isdir n)"
proof -
  let ?p = "join (cephRoot cfg) rel"
  have step: "process_line join cfg (c, w) line
           = (c\<lparr>lineCount := lineCount c + 1, total := total c + 1\<rparr>, w1)"
    using rec st dir by (simp add: process_line_def Let_def)
  from os_Stat_effect[OF st] obtain n where
    e: "fs w1 = fs w" "history w1 = history w @ [Call (SysStat ?p) None (fs w)]"
       "fs w ?p = Some n" "info = fileinfo_of n"
    by auto
  have "isdir n" using dir e(4) by (simp add: fileinfo_of_def)
  then show ?thesis
    using step e new_events_app[OF e(2)] by simp
qed


theorem directory_record_witness:
  "Fields ''cephfs.ibu.data_ec42 sub'' = SRC_POOL # ''sub'' # []
   \<and> IsDir (fileinfo_of (demo_inode\<lparr>isdir := True\<rparr>))
   \<and> process_line demo_join demo_cfg (no_counts, dir_world) ''cephfs.ibu.data_ec42 sub''
       = (no_counts\<lparr>lineCount := lineCount no_counts + 1, total := total no_counts + 1\<rparr>,
          snd (os_Stat ''/ceph/sub'' dir_world))
   \<and> new_events dir_world (snd (os_Stat ''/ceph/sub'' dir_world))
       = [Call (SysStat ''/ceph/sub'') None (fs dir_world)]"
proof -
  have p: "demo_join (cephRoot demo_cfg) ''sub'' = ''/ceph/sub''"
    by (simp add: demo_join_def demo_cfg_def)
  have st: "os_Stat (demo_join (cephRoot demo_cfg) ''sub'') dir_world
      = (Inr (fileinfo_of (demo_inode\<lparr>isdir := True\<rparr>)), snd (os_Stat ''/ceph/sub'' dir_world))"
    unfolding p
    by (simp add: os_Stat_def perform_def effect_def next_outcome_def dir_world_def demo_world_def)
  have d: "IsDir (fileinfo_of (demo_inode\<lparr>isdir := True\<rparr>))"
    by (simp add: fileinfo_of_def)
  from directory_record_skipped[where join = demo_join and cfg = demo_cfg and rel = "''sub''"
      and c = no_counts, OF demo_dir_record st d] d demo_dir_record p
  show ?thesis by simp
qed


subsection \<open>Idempotence\<close>


lemma leaves_refl [simp]: "leaves_alone q w w"
  by (simp add: leaves_alone_def)



lemma leaves_report [simp]:
  "leaves_alone q w (report m w)" "leaves_alone q w (report_if b m w)"
  by (simp_all add: leaves_alone_def report_def report_if_def touches_def)



















subsection \<open>Dry run\<close>

text \<open>
  Claim C9. With dry-run enabled, a record that passes the checks of the coordinator
  (source pool in the scan file, a successful \<^verbatim>\<open>stat\<close> of a non-directory, a live
  attribute equal to the source pool) is counted as migrated, with its size added to
  the migrated bytes, while the file system stays as it was (content, attribute and
  paths, no temporary file) and every event of the step is a report or a call that
  cannot change an inode. The counters are those of the same step without dry-run
  whenever the executor succeeds there.
\<close>

theorem dry_run_counts_without_touching:
  assumes dry: "dryRun cfg"
      and rec: "Fields line = SRC_POOL # rel # others"
      and st: "os_Stat (join (cephRoot cfg) rel) w = (Inr info, w1)"
      and reg: "\<not> IsDir info"
      and gx: "getXattr (join (cephRoot cfg) rel) w1 = ((SRC_POOL, None), w2)"
  shows "process_line join cfg (c, w) line
           = (c\<lparr>lineCount := lineCount c + 1, total := total c + 1,
                migrated := migrated c + 1, bytesTotal := bytesTotal c + Size info\<rparr>, w2)
       \<and> fs w2 = fs w
       \<and> (\<forall>ev\<in>set (new_events w w2). inspects ev)
       \<and> (\<forall>w3. migrateFile (join (cephRoot cfg) rel) info w2 = (None, w3) \<longrightarrow>
             process_line join (cfg\<lparr>dryRun := False\<rparr>) (c, w) line
               = (c\<lparr>lineCount := lineCount c + 1, total := total c + 1,
                    migrated := migrated c + 1, bytesTotal := bytesTotal c + Size info\<rparr>, w3))"
proof -
  let ?p = "join (cephRoot cfg) rel"
  have a: "process_line join cfg (c, w) line
           = (c\<lparr>lineCount := lineCount c + 1, total := total c + 1,
                migrated := migrated c + 1, bytesTotal := bytesTotal c + Size info\<rparr>, w2)"
    using dry rec st reg gx by (simp add: process_line_def Let_def)
  from os_Stat_effect[OF st] have
    e1: "fs w1 = fs w" "history w1 = history w @ [Call (SysStat ?p) None (fs w)]"
    by auto
  from getXattr_effect[OF gx] obtain evs where
    e2: "fs w2 = fs w1" "history w2 = history w1 @ evs" "\<forall>ev\<in>set evs. inspects ev"
    by blast
  have "history w2 = history w @ (Call (SysStat ?p) None (fs w) # evs)"
    using e1(2) e2(2) by simp
  then have "new_events w w2 = Call (SysStat ?p) None (fs w) # evs"
    by (rule new_events_app)
  then have b: "\<forall>ev\<in>set (new_events w w2). inspects ev"
    using e2(3) by simp
  have d: "\<forall>w3. migrateFile ?p info w2 = (None, w3) \<longrightarrow>
             process_line join (cfg\<lparr>dryRun := False\<rparr>) (c, w) line
               = (c\<lparr>lineCount := lineCount c + 1, total := total c + 1,
                    migrated := migrated c + 1, bytesTotal := bytesTotal c + Size info\<rparr>, w3)"
    using rec st reg gx by (simp add: process_line_def Let_def)
  show ?thesis using a b d e1(1) e2(1) by simp
qed

theorem dry_run_witness:
  "dryRun (demo_cfg\<lparr>dryRun := True\<rparr>)
   \<and> Fields ''cephfs.ibu.data_ec42 a.bin'' = SRC_POOL # ''a.bin'' # []
   \<and> fst (process_line demo_join (demo_cfg\<lparr>dryRun := True\<rparr>) (no_counts, demo_world)
            ''cephfs.ibu.data_ec42 a.bin'')
       = no_counts\<lparr>lineCount := 1, total := 1, migrated := 1, bytesTotal := 4\<rparr>
   \<and> fs (snd (process_line demo_join (demo_cfg\<lparr>dryRun := True\<rparr>) (no_counts, demo_world)
                 ''cephfs.ibu.data_ec42 a.bin'')) = fs demo_world
   \<and> fst (process_line demo_join demo_cfg (no_counts, demo_world) ''cephfs.ibu.data_ec42 a.bin'')
       = no_counts\<lparr>lineCount := 1, total := 1, migrated := 1, bytesTotal := 4\<rparr>"
proof -
  let ?cfg = "demo_cfg\<lparr>dryRun := True\<rparr>"
  let ?p = "demo_join (cephRoot ?cfg) ''a.bin''"
  let ?w1 = "snd (os_Stat ?p demo_world)"
  let ?w2 = "snd (getXattr ?p ?w1)"
  let ?w3 = "snd (migrateFile ?p demo_info ?w2)"
  have dry: "dryRun ?cfg" by simp
  have st: "os_Stat ?p demo_world = (Inr demo_info, ?w1)"
    by (simp add: os_Stat_def perform_def effect_def next_outcome_def demo_world_def demo_info_def
        demo_join_def demo_cfg_def)
  have reg: "\<not> IsDir demo_info"
    by (simp add: demo_info_def fileinfo_of_def demo_inode_def)
  have gx: "getXattr ?p ?w1 = ((SRC_POOL, None), ?w2)"
    by (simp add: coord_defs perform_def effect_def next_outcome_def demo_world_def demo_inode_def)
  have mig: "migrateFile ?p demo_info ?w2 = (None, ?w3)"
    by (simp add: prod_eq_iff run_defs coord_defs demo_defs)
  have sz: "Size demo_info = 4"
    by (simp add: demo_info_def fileinfo_of_def demo_inode_def)
  have cfg: "?cfg\<lparr>dryRun := False\<rparr> = demo_cfg"
    by (simp add: demo_cfg_def)
  from dry_run_counts_without_touching[where join = demo_join and cfg = "?cfg" and rel = "''a.bin''"
      and c = no_counts, OF dry demo_record st reg gx] mig
  have "process_line demo_join ?cfg (no_counts, demo_world) ''cephfs.ibu.data_ec42 a.bin''
           = (no_counts\<lparr>lineCount := lineCount no_counts + 1, total := total no_counts + 1,
                migrated := migrated no_counts + 1, bytesTotal := bytesTotal no_counts + Size demo_info\<rparr>, ?w2)"
    and "fs ?w2 = fs demo_world"
    and "process_line demo_join (?cfg\<lparr>dryRun := False\<rparr>) (no_counts, demo_world) ''cephfs.ibu.data_ec42 a.bin''
           = (no_counts\<lparr>lineCount := lineCount no_counts + 1, total := total no_counts + 1,
                migrated := migrated no_counts + 1, bytesTotal := bytesTotal no_counts + Size demo_info\<rparr>, ?w3)"
    by blast+
  then show ?thesis using dry demo_record sz cfg by (simp add: no_counts_def)
qed

section \<open>The Distribution Analyzer counts records\<close>

lemma lookup0_upd [simp]:
  "lookup0 (m(k \<mapsto> v)) p = (if p = k then v else lookup0 m p)"
  by (simp add: lookup0_def)

lemma count_line_lookup:
  "lookup0 (count_line m line) p = lookup0 m p + (if names_pool p line then 1 else 0)"
  by (auto simp: count_line_def names_pool_def Let_def)

lemma count_line_dom:
  "dom (count_line m line) = dom m \<union> {p. names_pool p line}"
  by (auto simp: count_line_def names_pool_def Let_def)

lemma count_fold_lookup:
  "lookup0 (foldl count_line m ls) p = lookup0 m p + of_nat (length (filter (names_pool p) ls))"
  by (induction ls arbitrary: m) (simp_all add: count_line_lookup)

lemma count_fold_dom:
  "dom (foldl count_line m ls) = dom m \<union> {p. \<exists>l\<in>set ls. names_pool p l}"
  by (induction ls arbitrary: m) (auto simp: count_line_dom)

lemma sint_small: "k < 2 ^ 63 \<Longrightarrow> sint (of_nat k :: 64 word) = int k"
  by (simp add: signed_of_nat signed_take_bit_int_eq_self)

lemma bufio_Scan_clean:
  assumes "bufio_Scan p w = ((ls, None), w')"
  shows "fs w' = fs w \<and> (\<exists>n. fs w p = Some n \<and> ls = ScanLines (content n))"
proof -
  obtain r w1 where pf: "perform (SysScan p) w = (r, w1)" by force
  have "r = None"
    using assms pf by (cases r) (auto simp: bufio_Scan_def split: outcome.splits option.splits)
  then have "w' = w1" "\<exists>n. fs w p = Some n \<and> ls = ScanLines (content n)"
    using assms pf by (auto simp: bufio_Scan_def split: option.splits)
  moreover have "fs w1 = fs w" using perform_readonly[of "SysScan p" w] pf by simp
  ultimately show ?thesis by simp
qed

lemma analyze_clean:
  assumes "analyzePoolScan scanPath w = ((stats, None), w')"
  shows "\<exists>n. fs w scanPath = Some n \<and> stats = foldl count_line Map.empty (ScanLines (content n))
           \<and> fs w' = fs w"
proof -
  obtain st w1 where s: "os_Stat scanPath w = (st, w1)" by force
  obtain r w2 where ob: "os_Open scanPath w1 = (r, w2)" by force
  obtain ls serr w3 where sc: "bufio_Scan scanPath w2 = ((ls, serr), w3)"
    by (metis prod.exhaust)
  have "r = None \<and> serr = None \<and> stats = foldl count_line Map.empty ls \<and> w' = w3"
    using assms s ob sc by (auto simp: analyzePoolScan_def split: if_splits option.splits)
  then show ?thesis
    using bufio_Scan_clean[of scanPath w2 ls w3] sc os_Open_frame[OF ob] os_Stat_frame[OF s]
    by auto
qed

lemma plain_width: "\<not> ascii_space c \<Longrightarrow> byte c \<noteq> 0xC2 \<Longrightarrow> byte c \<noteq> 0xE1 \<Longrightarrow> byte c \<noteq> 0xE2
    \<Longrightarrow> byte c \<noteq> 0xE3 \<Longrightarrow> space_width (c # cs) = 0"
  by (simp add: ascii_space_def)

lemma space_width_ascii: "ascii_space c \<Longrightarrow> space_width (c # cs) = 1"
  by (simp add: ascii_space_def)

lemma fields_from_solid:
  "list_all (\<lambda>c. \<not> ascii_space c \<and> byte c \<noteq> 0xC2 \<and> byte c \<noteq> 0xE1 \<and> byte c \<noteq> 0xE2
                 \<and> byte c \<noteq> 0xE3) f \<Longrightarrow>
   fields_from cur (f @ rest) = fields_from (cur @ f) rest"
proof (induction f arbitrary: cur)
  case Nil
  then show ?case by simp
next
  case (Cons c f)
  then have "space_width (c # f @ rest) = 0" by (simp add: plain_width del: space_width.simps)
  then show ?case using Cons by (simp del: space_width.simps)
qed

lemma fields_from_blank:
  "blank sep \<Longrightarrow> fields_from [] (sep @ rest) = fields_from [] rest"
proof (induction sep)
  case Nil
  then show ?case by simp
next
  case (Cons c sep)
  then have "space_width (c # sep @ rest) = 1"
    by (simp add: blank_def space_width_ascii del: space_width.simps)
  then show ?case using Cons by (simp add: blank_def del: space_width.simps)
qed

lemma fields_from_close:
  "blank sep \<Longrightarrow> sep \<noteq> [] \<Longrightarrow> cur \<noteq> [] \<Longrightarrow>
   fields_from cur (sep @ rest) = cur # fields_from [] rest"
proof (cases sep)
  case Nil
  assume "sep \<noteq> []" then show ?thesis using Nil by simp
next
  case (Cons c tl)
  assume b: "blank sep" and c: "cur \<noteq> []"
  then have w: "space_width (c # tl @ rest) = 1" and t: "blank tl"
    using Cons by (simp_all add: blank_def space_width_ascii del: space_width.simps)
  show ?thesis using Cons w c fields_from_blank[OF t, of rest] by (simp del: space_width.simps)
qed

lemma two_fields:
  assumes "blank sep0" "solid pool" "blank sep1" "sep1 \<noteq> []" "solid rel" "blank sep2"
  shows "Fields (sep0 @ pool @ sep1 @ rel @ sep2) = [pool, rel]"
proof -
  have p: "pool \<noteq> []" and r: "rel \<noteq> []" using assms by (simp_all add: solid_def)
  have last: "fields_from rel sep2 = [rel]"
  proof (cases "sep2 = []")
    case True
    then show ?thesis using r by simp
  next
    case False
    then show ?thesis using fields_from_close[OF assms(6) False r, of "[]"] by simp
  qed
  have "Fields (sep0 @ pool @ sep1 @ rel @ sep2) = fields_from [] (pool @ sep1 @ rel @ sep2)"
    using fields_from_blank[OF assms(1)] by (simp add: Fields_def)
  also have "\<dots> = fields_from pool (sep1 @ rel @ sep2)"
    using fields_from_solid[of pool "[]"] assms(2) by (simp add: solid_def)
  also have "\<dots> = pool # fields_from [] (rel @ sep2)"
    using fields_from_close[OF assms(3,4) p] by simp
  also have "\<dots> = pool # fields_from rel sep2"
    using fields_from_solid[of rel "[]"] assms(5) by (simp add: solid_def)
  finally show ?thesis using last by simp
qed

lemma tally_lines: "ScanLines (content tally_inode) = [''A p1'', ''A p2'', ''B p3'']"
  by (simp add: tally_inode_def ScanLines_def dropCR_def)

lemma tally_fields:
  "Fields ''A p1'' = [''A'', ''p1'']" "Fields ''A p2'' = [''A'', ''p2'']"
  "Fields ''B p3'' = [''B'', ''p3'']"
  by (simp_all add: Fields_def byte_def)

lemma tally_run:
  "fst (analyzePoolScan ''/ceph/pool_scan.tab'' tally_world) = ([''A'' \<mapsto> 2, ''B'' \<mapsto> 1], None)"
proof -
  have a: "fst (analyzePoolScan ''/ceph/pool_scan.tab'' tally_world)
      = (foldl count_line Map.empty (ScanLines (content tally_inode)), None)"
    by (simp add: analyzePoolScan_def os_Stat_def os_Open_def os_OpenFile_def bufio_Scan_def
        perform_def effect_def next_outcome_def tally_world_def demo_world_def
        tally_inode_def demo_inode_def)
  have b: "foldl count_line Map.empty (ScanLines (content tally_inode)) = [''A'' \<mapsto> 2, ''B'' \<mapsto> 1]"
    by (simp add: tally_lines count_line_def tally_fields lookup0_def)
  show ?thesis by (simp only: a b)
qed

text \<open>
  Claim C8. When \<^verbatim>\<open>analyzePoolScan\<close> returns without error, the scan file exists and
  the map it returns holds, for every pool name, the number of lines of the file that
  are well-formed records naming that pool (as a 64-bit \<^verbatim>\<open>int\<close>: exactly that number
  below \<open>2^63\<close> lines), and its keys are the pools that some record names. A line
  made of a pool and a path between runs of white space splits into these two fields
  and names the pool; a line with fewer than two fields leaves the counts as they are.
  For the scan file with the records (A, p1), (A, p2), (B, p3) the result is
  \<open>{A: 2, B: 1}\<close>.
\<close>

theorem pool_distribution_counts:
  "(\<forall>scanPath w stats w'. analyzePoolScan scanPath w = ((stats, None), w') \<longrightarrow>
      (\<exists>n. fs w scanPath = Some n
         \<and> (\<forall>p. lookup0 stats p
                  = of_nat (length (filter (names_pool p) (ScanLines (content n)))))
         \<and> (length (ScanLines (content n)) < 2 ^ 63 \<longrightarrow>
              (\<forall>p. sint (lookup0 stats p)
                     = int (length (filter (names_pool p) (ScanLines (content n))))))
         \<and> dom stats = {p. \<exists>l\<in>set (ScanLines (content n)). names_pool p l}))
   \<and> (\<forall>sep0 pool sep1 rel sep2.
         blank sep0 \<and> solid pool \<and> blank sep1 \<and> sep1 \<noteq> [] \<and> solid rel \<and> blank sep2 \<longrightarrow>
         Fields (sep0 @ pool @ sep1 @ rel @ sep2) = [pool, rel]
         \<and> names_pool pool (sep0 @ pool @ sep1 @ rel @ sep2))
   \<and> (\<forall>m line. length (Fields line) < 2 \<longrightarrow> count_line m line = m)
   \<and> fst (fst (analyzePoolScan ''/ceph/pool_scan.tab'' tally_world)) = [''A'' \<mapsto> 2, ''B'' \<mapsto> 1]"
proof (intro conjI allI impI)
  fix scanPath w stats w'
  assume "analyzePoolScan scanPath w = ((stats, None), w')"
  from analyze_clean[OF this] obtain n where
    n: "fs w scanPath = Some n" "stats = foldl count_line Map.empty (ScanLines (content n))"
    by blast
  let ?ls = "ScanLines (content n)"
  have cnt: "lookup0 stats p = of_nat (length (filter (names_pool p) ?ls))" for p
    using n(2) count_fold_lookup[of Map.empty ?ls p] by (simp add: lookup0_def)
  have sgn: "length ?ls < 2 ^ 63 \<longrightarrow>
      (\<forall>p. sint (lookup0 stats p) = int (length (filter (names_pool p) ?ls)))"
  proof (intro impI allI)
    fix p assume small: "length ?ls < 2 ^ 63"
    have "length (filter (names_pool p) ?ls) \<le> length ?ls" by simp
    then have "length (filter (names_pool p) ?ls) < 2 ^ 63" using small by linarith
    then show "sint (lookup0 stats p) = int (length (filter (names_pool p) ?ls))"
      using cnt[of p] sint_small by simp
  qed
  have "dom stats = {p. \<exists>l\<in>set ?ls. names_pool p l}"
    using n(2) count_fold_dom[of Map.empty ?ls] by simp
  then show "\<exists>n. fs w scanPath = Some n
         \<and> (\<forall>p. lookup0 stats p
                  = of_nat (length (filter (names_pool p) (ScanLines (content n)))))
         \<and> (length (ScanLines (content n)) < 2 ^ 63 \<longrightarrow>
              (\<forall>p. sint (lookup0 stats p)
                     = int (length (filter (names_pool p) (ScanLines (content n))))))
         \<and> dom stats = {p. \<exists>l\<in>set (ScanLines (content n)). names_pool p l}"
    using n(1) cnt sgn by blast
next
  fix sep0 pool sep1 rel sep2
  assume a: "blank sep0 \<and> solid pool \<and> blank sep1 \<and> sep1 \<noteq> [] \<and> solid rel \<and> blank sep2"
  then show "Fields (sep0 @ pool @ sep1 @ rel @ sep2) = [pool, rel]"
    using two_fields by blast
  from a show "names_pool pool (sep0 @ pool @ sep1 @ rel @ sep2)"
    using two_fields[of sep0 pool sep1 rel sep2] by (simp add: names_pool_def)
next
  fix m line
  assume "length (Fields line) < 2"
  then show "count_line m line = m" by (simp add: count_line_def)
next
  show "fst (fst (analyzePoolScan ''/ceph/pool_scan.tab'' tally_world)) = [''A'' \<mapsto> 2, ''B'' \<mapsto> 1]"
    using tally_run by simp
qed


theorem pool_distribution_witness:
  "snd (fst (analyzePoolScan ''/ceph/pool_scan.tab'' tally_world)) = None
   \<and> lookup0 (fst (fst (analyzePoolScan ''/ceph/pool_scan.tab'' tally_world))) ''A'' = 2
   \<and> lookup0 (fst (fst (analyzePoolScan ''/ceph/pool_scan.tab'' tally_world))) ''B'' = 1
   \<and> lookup0 (fst (fst (analyzePoolScan ''/ceph/pool_scan.tab'' tally_world))) ''C'' = 0
   \<and> blank '' '' \<and> solid ''A'' \<and> solid ''p1''
   \<and> Fields ([] @ ''A'' @ '' '' @ ''p1'' @ []) = [''A'', ''p1'']"
proof -
  let ?stats = "fst (fst (analyzePoolScan ''/ceph/pool_scan.tab'' tally_world))"
  have run: "analyzePoolScan ''/ceph/pool_scan.tab'' tally_world
      = ((?stats, None), snd (analyzePoolScan ''/ceph/pool_scan.tab'' tally_world))"
    by (simp add: prod_eq_iff tally_run)
  have here: "fs tally_world ''/ceph/pool_scan.tab'' = Some tally_inode"
    by (simp add: tally_world_def)
  have names: "names_pool p ''A p1'' \<longleftrightarrow> p = ''A''" "names_pool p ''A p2'' \<longleftrightarrow> p = ''A''"
      "names_pool p ''B p3'' \<longleftrightarrow> p = ''B''" for p
    by (auto simp: names_pool_def tally_fields)
  have shape: "blank '' ''" "solid ''A''" "solid ''p1''" "blank []"
    by (simp_all add: blank_def solid_def ascii_space_def byte_def)
  note all = pool_distribution_counts
  from all run obtain n where
    n: "fs tally_world ''/ceph/pool_scan.tab'' = Some n"
       "\<forall>p. lookup0 ?stats p = of_nat (length (filter (names_pool p) (ScanLines (content n))))"
    by blast
  have "n = tally_inode" using n(1) here by simp
  then have counts: "lookup0 ?stats ''A'' = 2" "lookup0 ?stats ''B'' = 1" "lookup0 ?stats ''C'' = 0"
    using n(2) by (simp_all add: tally_lines names)
  from all shape have "Fields ([] @ ''A'' @ '' '' @ ''p1'' @ []) = [''A'', ''p1'']"
    by blast
  then show ?thesis using counts shape by (simp add: tally_run)
qed

section \<open>Read faults on the scan file\<close>

lemma bufio_Scan_fault:
  "next_outcome w = FaultAfter k e \<Longrightarrow> fs w p = Some n \<Longrightarrow>
   fst (bufio_Scan p w) = (ScanLines (take k (content n)), Some e)"
  by (simp add: bufio_Scan_def perform_def effect_def)

lemma analyze_read_fault:
  "os_Stat p w = (Inr info, wa) \<Longrightarrow> os_Open p wa = (None, wb) \<Longrightarrow>
   bufio_Scan p wb = ((ls, Some e), wc) \<Longrightarrow>
   analyzePoolScan p w = ((foldl count_line Map.empty ls, Some (ScanReadError e)), wc)"
  by (simp add: analyzePoolScan_def)

text \<open>
  Claim C7, amended. Let the analysis pass return the counts \<open>stats\<close> and the error
  \<open>aerr\<close>. If it returned an error, whichever it is, \<^verbatim>\<open>main\<close> reports it and exits
  with status 1 without processing a record. If it returned none and the run goes on,
  a read fault of the migration pass after the lines \<open>ls\<close> is reported and the run
  ends normally, with the counters and the world that processing exactly the lines
  \<open>ls\<close> produced, followed by the summary. The analyzer itself keeps what it counted:
  after a read fault it returns the counts of the lines yielded before the fault
  together with the error. A fault after \<open>k\<close> bytes yields the lines of the first
  \<open>k\<close> bytes.
\<close>

theorem scan_read_fault_handling:
  assumes an: "analyzePoolScan (join (cephRoot cfg) SCAN_FILE) w0 = ((stats, aerr), w1)"
  shows "(\<forall>e. aerr = Some e \<longrightarrow>
            main join cfg answer w0 = ((1, no_counts), report (MsgErrorAnalyzing e) w1))
       \<and> (aerr = None \<and> lookup0 stats SRC_POOL \<noteq> 0 \<and> (dryRun cfg \<or> answer) \<longrightarrow>
            (\<forall>w2 ls e w3.
                os_Open (join (cephRoot cfg) SCAN_FILE) w1 = (None, w2)
                \<and> bufio_Scan (join (cephRoot cfg) SCAN_FILE) w2 = ((ls, Some e), w3) \<longrightarrow>
                (\<exists>c w4. foldl (process_line join cfg) (no_counts, w3) ls = (c, w4)
                   \<and> main join cfg answer w0
                       = ((0, c),
                          report (MsgSummary (lineCount c) (migrated c) (bytesTotal c) (errors c))
                            (report (MsgErrorReadingScan e) w4)))))
       \<and> (\<forall>p w info wa wb ls e wc.
             os_Stat p w = (Inr info, wa) \<and> os_Open p wa = (None, wb)
             \<and> bufio_Scan p wb = ((ls, Some e), wc) \<longrightarrow>
             analyzePoolScan p w = ((foldl count_line Map.empty ls, Some (ScanReadError e)), wc))
       \<and> (\<forall>p w k e n. next_outcome w = FaultAfter k e \<and> fs w p = Some n \<longrightarrow>
             fst (bufio_Scan p w) = (ScanLines (take k (content n)), Some e))"
proof -
  have fatal: "\<forall>e. aerr = Some e \<longrightarrow>
            main join cfg answer w0 = ((1, no_counts), report (MsgErrorAnalyzing e) w1)"
    using an by (simp add: main_def Let_def)
  have kept: "aerr = None \<and> lookup0 stats SRC_POOL \<noteq> 0 \<and> (dryRun cfg \<or> answer) \<longrightarrow>
            (\<forall>w2 ls e w3.
                os_Open (join (cephRoot cfg) SCAN_FILE) w1 = (None, w2)
                \<and> bufio_Scan (join (cephRoot cfg) SCAN_FILE) w2 = ((ls, Some e), w3) \<longrightarrow>
                (\<exists>c w4. foldl (process_line join cfg) (no_counts, w3) ls = (c, w4)
                   \<and> main join cfg answer w0
                       = ((0, c),
                          report (MsgSummary (lineCount c) (migrated c) (bytesTotal c) (errors c))
                            (report (MsgErrorReadingScan e) w4))))"
  proof (intro impI allI)
    fix w2 ls e w3
    assume go: "aerr = None \<and> lookup0 stats SRC_POOL \<noteq> 0 \<and> (dryRun cfg \<or> answer)"
      and rd: "os_Open (join (cephRoot cfg) SCAN_FILE) w1 = (None, w2)
                \<and> bufio_Scan (join (cephRoot cfg) SCAN_FILE) w2 = ((ls, Some e), w3)"
    obtain c w4 where f: "foldl (process_line join cfg) (no_counts, w3) ls = (c, w4)"
      by force
    have "main join cfg answer w0
            = ((0, c), report (MsgSummary (lineCount c) (migrated c) (bytesTotal c) (errors c))
                            (report (MsgErrorReadingScan e) w4))"
      using an go rd f by (auto simp: main_def Let_def)
    then show "\<exists>c w4. foldl (process_line join cfg) (no_counts, w3) ls = (c, w4)
                   \<and> main join cfg answer w0
                       = ((0, c),
                          report (MsgSummary (lineCount c) (migrated c) (bytesTotal c) (errors c))
                            (report (MsgErrorReadingScan e) w4))"
      using f by blast
  qed
  show ?thesis
    using fatal kept analyze_read_fault bufio_Scan_fault by blast
qed

theorem scan_read_fault_witness:
  "snd (fst (analyzePoolScan ''/ceph/pool_scan.tab'' faulty_world)) = None
   \<and> lookup0 (fst (fst (analyzePoolScan ''/ceph/pool_scan.tab'' faulty_world))) SRC_POOL = 2
   \<and> (\<exists>c w4. main demo_join demo_cfg True faulty_world
               = ((0, c),
                  report (MsgSummary (lineCount c) (migrated c) (bytesTotal c) (errors c))
                    (report (MsgErrorReadingScan EIO) w4))
             \<and> migrated c = 1
             \<and> map_option xattrs (fs w4 ''/ceph/a.bin'') = Some [XATTR_KEY \<mapsto> DST_POOL])"
proof -
  let ?scan = "demo_join (cephRoot demo_cfg) SCAN_FILE"
  let ?stats = "fst (fst (analyzePoolScan ?scan faulty_world))"
  let ?w1 = "snd (analyzePoolScan ?scan faulty_world)"
  let ?w2 = "snd (os_Open ?scan ?w1)"
  let ?w3 = "snd (bufio_Scan ?scan ?w2)"
  let ?ls = "[''cephfs.ibu.data_ec42 a.bin'']"
  have name: "?scan = ''/ceph/pool_scan.tab''"
    by (simp add: demo_join_def demo_cfg_def SCAN_FILE_def)
  have an: "analyzePoolScan ?scan faulty_world = ((?stats, None), ?w1)"
    by (simp add: prod_eq_iff eval_defs)
  have cnt: "lookup0 ?stats SRC_POOL = 2"
    by (simp add: eval_defs)
  have op: "os_Open ?scan ?w1 = (None, ?w2)"
    by (simp add: prod_eq_iff eval_defs)
  have sc: "bufio_Scan ?scan ?w2 = ((?ls, Some EIO), ?w3)"
    by (simp add: prod_eq_iff eval_defs)
  have go: "None = (None :: scan_error option) \<and> lookup0 ?stats SRC_POOL \<noteq> 0
      \<and> (dryRun demo_cfg \<or> True)"
    using cnt by simp
  from scan_read_fault_handling[where join = demo_join and cfg = demo_cfg and answer = True, OF an]
    go op sc
  obtain c w4 where
    r: "foldl (process_line demo_join demo_cfg) (no_counts, ?w3) ?ls = (c, w4)"
       "main demo_join demo_cfg True faulty_world
               = ((0, c),
                  report (MsgSummary (lineCount c) (migrated c) (bytesTotal c) (errors c))
                    (report (MsgErrorReadingScan EIO) w4))"
    by blast
  have c: "c = fst (process_line demo_join demo_cfg (no_counts, ?w3) ''cephfs.ibu.data_ec42 a.bin'')"
    and w4: "w4 = snd (process_line demo_join demo_cfg (no_counts, ?w3) ''cephfs.ibu.data_ec42 a.bin'')"
    using r(1) by simp_all
  have aerr: "snd (fst (analyzePoolScan ''/ceph/pool_scan.tab'' faulty_world)) = None"
    by (simp add: eval_defs)
  have cnt': "lookup0 (fst (fst (analyzePoolScan ''/ceph/pool_scan.tab'' faulty_world))) SRC_POOL = 2"
    using cnt name by simp
  have m: "migrated c = 1"
    unfolding c by (simp add: eval_defs)
  have x: "map_option xattrs (fs w4 ''/ceph/a.bin'') = Some [XATTR_KEY \<mapsto> DST_POOL]"
    unfolding w4 by (simp add: eval_defs)
  show ?thesis
    using aerr cnt' r(2) m x by blast
qed

text \<open>
  The claim as stated fails for a read fault during the analysis pass: the analyzer has
  counted the record that was read before the fault, but \<^verbatim>\<open>main\<close> exits with status
  1 and has processed nothing, exactly as it does when the scan file cannot be opened.
\<close>

theorem analysis_read_fault_is_fatal:
  "fst (analyzePoolScan ''/ceph/pool_scan.tab''
          (scan_world\<lparr>faults := [Pass, Pass, FaultAfter 27 EIO]\<rparr>))
     = ([SRC_POOL \<mapsto> 1], Some (ScanReadError EIO))
   \<and> fst (main demo_join demo_cfg True (scan_world\<lparr>faults := [Pass, Pass, FaultAfter 27 EIO]\<rparr>))
       = (1, no_counts)
   \<and> history (snd (main demo_join demo_cfg True
                      (scan_world\<lparr>faults := [Pass, Pass, FaultAfter 27 EIO]\<rparr>)))
       = [Call (SysStat ''/ceph/pool_scan.tab'') None (fs scan_world),
          Call (SysOpenFile ''/ceph/pool_scan.tab'' [O_RDONLY] 0) None (fs scan_world),
          Call (SysScan ''/ceph/pool_scan.tab'') (Some EIO) (fs scan_world),
          Report (MsgErrorAnalyzing (ScanReadError EIO))]
   \<and> fst (main demo_join demo_cfg True (scan_world\<lparr>faults := [Pass, Fault EACCES]\<rparr>))
       = (1, no_counts)
   \<and> history (snd (main demo_join demo_cfg True (scan_world\<lparr>faults := [Pass, Fault EACCES]\<rparr>)))
       = [Call (SysStat ''/ceph/pool_scan.tab'') None (fs scan_world),
          Call (SysOpenFile ''/ceph/pool_scan.tab'' [O_RDONLY] 0) (Some EACCES) (fs scan_world),
          Report (MsgErrorAnalyzing (ScanOpenError EACCES))]"
  by (simp add: main_defs coord_defs demo_defs run_defs)

end
